theory Spec2Isabelle
  imports Main "HOL-Library.Word" "HOL-Library.Sublist"
begin

section \<open>The JavaScript runtime, as far as the program uses it\<close>

text \<open>
  The program is a Node.js password manager. Its functions are asynchronous and work by
  side effects on files, on the clock, on the console and on \<open>Buffer\<close> objects, and they
  signal failure by throwing. The embedding makes all of this explicit:
  \<^item> a thrown \<open>Error\<close> is a value \<open>Error message code\<close>;
  \<^item> every function is a state transformer \<open>world \<Rightarrow> (js_error + 'a) \<times> world\<close>, where
    \<open>Inl\<close> is a throw and \<open>Inr\<close> a normal return; \<open>try_catch\<close> and \<open>try_finally\<close> are the
    two control statements of the source;
  \<^item> what the program cannot decide (whether a file operation fails, what the random source
    yields) and the built-ins of Node it calls (scrypt, AES-256-GCM, base64, UTF-8 and JSON
    conversion) are the fields of an environment \<open>env\<close>, about which nothing is assumed
    unless a theorem says so.

  Files hold JSON documents. The three kinds of file the program keeps (vault files, the
  attempts file in the temporary directory, the audit log in the home directory) live at
  different paths and are modelled by their parsed contents; a file that cannot be read or
  parsed is \<open>BadFile\<close> or \<open>NotJson\<close>. Time stamps are milliseconds since the epoch; the
  ISO-8601 text that \<open>toISOString\<close> makes of them is not modelled.
\<close>

type_synonym bytes = "8 word list"

type_synonym path = string

datatype js_error = Error (message: string) (code: "string option")

text \<open>The result of reading and parsing a state file: absent, unreadable (the error's
  message is kept; its code is not \<open>ENOENT\<close>), or a parsed value.\<close>

datatype 'a stored = NoFile | BadFile string | Stored 'a

record entry =
  entry_password :: string
  entry_username :: "string option"

record vault =
  entries :: "(string \<times> entry) list"
  createdAt :: int
  updatedAt :: int

text \<open>The encrypted payload as \<open>JSON.parse\<close> returns it from the vault file. A property
  that is absent or not a string is \<open>None\<close>.\<close>

record payload =
  p_kdf :: "string option"
  p_salt :: "string option"
  p_iv :: "string option"
  p_authTag :: "string option"
  p_data :: "string option"

datatype file_content = NotJson | Json payload

record attempts =
  lastAttempt :: int
  failedAttempts :: int
  lockedUntil :: int

record log_entry =
  log_timestamp :: int
  log_action :: string
  log_details :: string
  log_result :: string
  log_pid :: nat

datatype audit_json = JArray "log_entry list" | JNotArray

text \<open>
  The environment: the built-ins of Node (\<open>scrypt\<close> is \<open>None\<close> when the key derivation
  reports an error; \<open>gcm_decrypt\<close> is \<open>None\<close> when \<open>createDecipheriv\<close>, \<open>update\<close> or
  \<open>final\<close> throws), the random source, and the outcome of file system calls:
  \<open>copy_transfer\<close> is what \<open>copyFile\<close> leaves at the destination (the identity on a
  healthy disk), \<open>text_size\<close> the size in bytes that \<open>stat\<close> reports for a content.
\<close>

record env =
  scrypt :: "string \<Rightarrow> bytes \<Rightarrow> bytes option"
  gcm_encrypt :: "bytes \<Rightarrow> bytes \<Rightarrow> bytes \<Rightarrow> bytes \<times> bytes"
  gcm_decrypt :: "bytes \<Rightarrow> bytes \<Rightarrow> bytes \<Rightarrow> bytes \<Rightarrow> bytes option"
  base64_encode :: "bytes \<Rightarrow> string"
  base64_decode :: "string \<Rightarrow> bytes"
  utf8_encode :: "string \<Rightarrow> bytes"
  utf8_decode :: "bytes \<Rightarrow> string"
  json_stringify :: "vault \<Rightarrow> string"
  json_parse :: "string \<Rightarrow> vault option"
  entropy :: "nat \<Rightarrow> 8 word"
  process_pid :: nat
  text_size :: "file_content \<Rightarrow> nat"
  attempts_write_fails :: bool
  attempts_unlink_fails :: bool
  audit_write_fails :: bool
  access_fails :: "path \<Rightarrow> bool"
  read_fails :: "path \<Rightarrow> bool"
  write_fails :: "path \<Rightarrow> bool"
  unlink_fails :: "path \<Rightarrow> bool"
  chmod_fails :: "path \<Rightarrow> bool"
  stat_fails :: "path \<Rightarrow> bool"
  copy_fails :: "path \<Rightarrow> path \<Rightarrow> bool"
  copy_transfer :: "file_content \<Rightarrow> file_content"
  parent_writable :: "path \<Rightarrow> bool"
  lock_busy :: "path \<Rightarrow> bool"
  release_fails :: "path \<Rightarrow> bool"

text \<open>
  The state: the clock, the console, the position in the random stream, the \<open>Buffer\<close>
  objects and the vault objects of the heap (by identity, since the program overwrites
  both in place), the files, and the locks.
\<close>

record world =
  clock :: int
  console :: "string list"
  entropy_pos :: nat
  buffers :: "nat \<Rightarrow> bytes"
  next_buffer :: nat
  objects :: "nat \<Rightarrow> vault"
  next_object :: nat
  vault_files :: "path \<Rightarrow> file_content option"
  attempts_file :: "attempts stored"
  audit_file :: "audit_json stored"
  held_locks :: "path list"
  next_lock :: nat
  activeLocks :: "(path \<times> nat) list"

type_synonym 'a io = "world \<Rightarrow> (js_error + 'a) \<times> world"

definition return_io :: "'a \<Rightarrow> 'a io" where
  "return_io x w = (Inr x, w)"

definition throw_io :: "js_error \<Rightarrow> 'a io" where
  "throw_io e w = (Inl e, w)"

definition bind_io :: "'a io \<Rightarrow> ('a \<Rightarrow> 'b io) \<Rightarrow> 'b io" where
  "bind_io m f w = (case m w of (Inl e, w') \<Rightarrow> (Inl e, w') | (Inr x, w') \<Rightarrow> f x w')"

definition try_catch :: "'a io \<Rightarrow> (js_error \<Rightarrow> 'a io) \<Rightarrow> 'a io" where
  "try_catch m h w = (case m w of (Inl e, w') \<Rightarrow> h e w' | (Inr x, w') \<Rightarrow> (Inr x, w'))"

definition try_finally :: "'a io \<Rightarrow> unit io \<Rightarrow> 'a io" where
  "try_finally m fin w =
     (case m w of (r, w') \<Rightarrow>
        (case fin w' of (Inl e, w'') \<Rightarrow> (Inl e, w'') | (Inr u, w'') \<Rightarrow> (r, w'')))"

definition date_now :: "int io" where
  "date_now w = (Inr (clock w), w)"

definition sleep :: "int \<Rightarrow> unit io" where
  "sleep ms w = (Inr (), w\<lparr>clock := clock w + ms\<rparr>)"

text \<open>\<open>console.log\<close>, \<open>console.warn\<close> and \<open>console.error\<close> all append a line.\<close>

definition console_log :: "string \<Rightarrow> unit io" where
  "console_log line w = (Inr (), w\<lparr>console := console w @ [line]\<rparr>)"

text \<open>\<open>String.prototype.includes\<close>, and the decimal text of a natural number as a
  template literal renders it.\<close>

fun js_includes :: "string \<Rightarrow> string \<Rightarrow> bool" where
  "js_includes [] pat = (pat = [])"
| "js_includes (c # cs) pat = (prefix pat (c # cs) \<or> js_includes cs pat)"

definition digit_char :: "nat \<Rightarrow> char" where
  "digit_char d = char_of (48 + d)"

function show_nat :: "nat \<Rightarrow> string" where
  "show_nat n = (if n < 10 then [digit_char n] else show_nat (n div 10) @ [digit_char (n mod 10)])"
  by pat_completeness auto
termination
  by (relation "measure id") auto

text \<open>\<open>Math.ceil(a / b)\<close> for integers \<open>a\<close> and positive \<open>b\<close>.\<close>

definition math_ceil_div :: "int \<Rightarrow> int \<Rightarrow> int" where
  "math_ceil_div a b = - ((- a) div b)"

subsection \<open>Buffers and objects\<close>

definition buffer_alloc :: "bytes \<Rightarrow> nat io" where
  "buffer_alloc bs w =
     (Inr (next_buffer w),
      w\<lparr>buffers := (buffers w)(next_buffer w := bs), next_buffer := Suc (next_buffer w)\<rparr>)"

definition buffer_read :: "nat \<Rightarrow> bytes io" where
  "buffer_read b w = (Inr (buffers w b), w)"

definition randomBytes :: "env \<Rightarrow> nat \<Rightarrow> nat io" where
  "randomBytes env n w =
     buffer_alloc (map (entropy env) [entropy_pos w ..< entropy_pos w + n])
       (w\<lparr>entropy_pos := entropy_pos w + n\<rparr>)"

definition randomFillSync :: "env \<Rightarrow> nat \<Rightarrow> unit io" where
  "randomFillSync env b w =
     (let n = length (buffers w b) in
      (Inr (), w\<lparr>buffers := (buffers w)(b := map (entropy env) [entropy_pos w ..< entropy_pos w + n]),
                 entropy_pos := entropy_pos w + n\<rparr>))"

definition buffer_fill :: "nat \<Rightarrow> 8 word \<Rightarrow> unit io" where
  "buffer_fill b x w =
     (Inr (), w\<lparr>buffers := (buffers w)(b := replicate (length (buffers w b)) x)\<rparr>)"

definition object_alloc :: "vault \<Rightarrow> nat io" where
  "object_alloc v w =
     (Inr (next_object w),
      w\<lparr>objects := (objects w)(next_object w := v), next_object := Suc (next_object w)\<rparr>)"

text \<open>\<open>JSON.parse\<close> makes a new object; \<open>JSON.stringify\<close> reads one.\<close>

definition JSON_parse :: "env \<Rightarrow> string \<Rightarrow> nat io" where
  "JSON_parse env text =
     (case json_parse env text of
        None \<Rightarrow> throw_io (Error ''Unexpected token in JSON'' None)
      | Some v \<Rightarrow> object_alloc v)"

definition JSON_stringify :: "env \<Rightarrow> nat \<Rightarrow> string io" where
  "JSON_stringify env obj w = (Inr (json_stringify env (objects w obj)), w)"

section \<open>crypto.js\<close>

definition deriveKey :: "env \<Rightarrow> string \<Rightarrow> nat \<Rightarrow> nat io" where
  "deriveKey env password salt =
     bind_io (buffer_read salt) (\<lambda>s.
       case scrypt env password s of
         None \<Rightarrow> throw_io (Error ''Invalid scrypt params: memory limit exceeded'' None)
       | Some k \<Rightarrow> buffer_alloc k)"

definition secureWipe :: "env \<Rightarrow> nat \<Rightarrow> unit io" where
  "secureWipe env buffer =
     bind_io (randomFillSync env buffer) (\<lambda>_. buffer_fill buffer 0)"

text \<open>\<open>createCipheriv('aes-256-gcm', key, iv)\<close>, \<open>update\<close>, \<open>final\<close> and
  \<open>getAuthTag\<close>: the ciphertext and the tag are two new buffers.\<close>

definition cipher_gcm :: "env \<Rightarrow> nat \<Rightarrow> nat \<Rightarrow> nat \<Rightarrow> (nat \<times> nat) io" where
  "cipher_gcm env key iv plaintext =
     bind_io (buffer_read key) (\<lambda>k.
     bind_io (buffer_read iv) (\<lambda>i.
     bind_io (buffer_read plaintext) (\<lambda>p.
     bind_io (buffer_alloc (fst (gcm_encrypt env k i p))) (\<lambda>encrypted.
     bind_io (buffer_alloc (snd (gcm_encrypt env k i p))) (\<lambda>authTag.
     return_io (encrypted, authTag))))))"

definition toString_base64 :: "env \<Rightarrow> nat \<Rightarrow> string io" where
  "toString_base64 env b = bind_io (buffer_read b) (\<lambda>bs. return_io (base64_encode env bs))"

text \<open>
  \<open>encryptJson\<close>. The three nested \<open>try\<close> \<open>finally\<close> blocks wipe the plaintext, the key,
  and the salt and nonce; the returned object is built from the buffers before the
  \<open>finally\<close> blocks run.
\<close>

definition encryptJson :: "env \<Rightarrow> nat \<Rightarrow> string \<Rightarrow> payload io" where
  "encryptJson env obj password =
     bind_io (randomBytes env 16) (\<lambda>salt.
     bind_io (randomBytes env 12) (\<lambda>iv.
     try_finally
       (bind_io (deriveKey env password salt) (\<lambda>key.
        try_finally
          (bind_io (JSON_stringify env obj) (\<lambda>text.
           bind_io (buffer_alloc (utf8_encode env text)) (\<lambda>plaintext.
           try_finally
             (bind_io (cipher_gcm env key iv plaintext) (\<lambda>(encrypted, authTag).
              bind_io (toString_base64 env salt) (\<lambda>salt64.
              bind_io (toString_base64 env iv) (\<lambda>iv64.
              bind_io (toString_base64 env authTag) (\<lambda>authTag64.
              bind_io (toString_base64 env encrypted) (\<lambda>data64.
              return_io \<lparr>p_kdf = Some ''scrypt'', p_salt = Some salt64, p_iv = Some iv64,
                         p_authTag = Some authTag64, p_data = Some data64\<rparr>))))))
             (secureWipe env plaintext))))
          (secureWipe env key)))
       (bind_io (secureWipe env salt) (\<lambda>_. secureWipe env iv))))"

text \<open>\<open>Buffer.from(x, 'base64')\<close> throws a \<open>TypeError\<close> when \<open>x\<close> is not a string.\<close>

definition Buffer_from_base64 :: "env \<Rightarrow> string option \<Rightarrow> nat io" where
  "Buffer_from_base64 env field =
     (case field of
        None \<Rightarrow> throw_io (Error ''The first argument must be of type string'' (Some ''ERR_INVALID_ARG_TYPE''))
      | Some s \<Rightarrow> buffer_alloc (base64_decode env s))"

definition decipher_gcm :: "env \<Rightarrow> nat \<Rightarrow> nat \<Rightarrow> nat \<Rightarrow> nat \<Rightarrow> nat io" where
  "decipher_gcm env key iv authTag data =
     bind_io (buffer_read key) (\<lambda>k.
     bind_io (buffer_read iv) (\<lambda>i.
     bind_io (buffer_read authTag) (\<lambda>t.
     bind_io (buffer_read data) (\<lambda>d.
       case gcm_decrypt env k i t d of
         None \<Rightarrow> throw_io (Error ''Unsupported state or unable to authenticate data'' None)
       | Some p \<Rightarrow> buffer_alloc p))))"

definition toString_utf8 :: "env \<Rightarrow> nat \<Rightarrow> string io" where
  "toString_utf8 env b = bind_io (buffer_read b) (\<lambda>bs. return_io (utf8_decode env bs))"

definition decryption_failed :: js_error where
  "decryption_failed = Error ''Decryption failed - invalid password or corrupted vault'' None"

text \<open>
  \<open>decryptJson\<close>. When \<open>final\<close> throws, the variable \<open>decrypted\<close> is still undefined and
  the innermost \<open>finally\<close> wipes nothing; the outer \<open>catch\<close> logs the cause and replaces
  every error by one fixed error.
\<close>

definition decryptJson :: "env \<Rightarrow> payload \<Rightarrow> string \<Rightarrow> nat io" where
  "decryptJson env payload password =
     try_catch
       (bind_io (Buffer_from_base64 env (p_salt payload)) (\<lambda>salt.
        bind_io (Buffer_from_base64 env (p_iv payload)) (\<lambda>iv.
        bind_io (Buffer_from_base64 env (p_authTag payload)) (\<lambda>authTag.
        bind_io (Buffer_from_base64 env (p_data payload)) (\<lambda>data.
        try_finally
          (bind_io (deriveKey env password salt) (\<lambda>key.
           try_finally
             (bind_io (decipher_gcm env key iv authTag data) (\<lambda>decrypted.
              try_finally
                (bind_io (toString_utf8 env decrypted) (\<lambda>text. JSON_parse env text))
                (secureWipe env decrypted)))
             (secureWipe env key)))
          (bind_io (secureWipe env data) (\<lambda>_. secureWipe env authTag)))))))
       (\<lambda>error.
          bind_io (console_log (''Decryption error (for debugging): '' @ message error)) (\<lambda>_.
          throw_io decryption_failed))"

section \<open>ratelimit.js\<close>

text \<open>The class \<open>PersistentRateLimiter\<close> and its one instance.\<close>

record limiter =
  minDelayMs :: int
  maxFailedAttempts :: int
  lockoutDuration :: int

definition passwordRateLimiter :: limiter where
  "passwordRateLimiter = \<lparr>minDelayMs = 1000, maxFailedAttempts = 10, lockoutDuration = 300000\<rparr>"

definition getAttempts :: "attempts io" where
  "getAttempts w =
     (case attempts_file w of
        NoFile \<Rightarrow> (Inr \<lparr>lastAttempt = 0, failedAttempts = 0, lockedUntil = 0\<rparr>, w)
      | BadFile msg \<Rightarrow> (Inl (Error msg None), w)
      | Stored a \<Rightarrow> (Inr a, w))"

definition saveAttempts :: "env \<Rightarrow> attempts \<Rightarrow> unit io" where
  "saveAttempts env a w =
     (if attempts_write_fails env
      then (Inl (Error ''EACCES: permission denied'' (Some ''EACCES'')), w)
      else (Inr (), w\<lparr>attempts_file := Stored a\<rparr>))"

definition lockout_message :: "int \<Rightarrow> string" where
  "lockout_message waitTime =
     ''Too many failed attempts. Locked out for '' @
     show_nat (nat (math_ceil_div waitTime 60000)) @ '' more minutes.''"

definition waitIfNeeded :: "limiter \<Rightarrow> bool io" where
  "waitIfNeeded this =
     try_catch
       (bind_io getAttempts (\<lambda>attempts.
        bind_io date_now (\<lambda>now.
          if lockedUntil attempts \<noteq> 0 \<and> now < lockedUntil attempts then
            throw_io (Error (lockout_message (lockedUntil attempts - now)) None)
          else
            bind_io
              (if lastAttempt attempts \<noteq> 0 \<and> now - lastAttempt attempts < minDelayMs this
               then sleep (minDelayMs this - (now - lastAttempt attempts))
               else return_io ())
              (\<lambda>_. return_io True))))
       (\<lambda>error.
          if js_includes (message error) ''locked out'' then throw_io error
          else return_io False)"

definition recordFailure :: "limiter \<Rightarrow> env \<Rightarrow> unit io" where
  "recordFailure this env =
     try_catch
       (bind_io getAttempts (\<lambda>attempts.
        bind_io date_now (\<lambda>now.
          let a1 = (if lastAttempt attempts \<noteq> 0 \<and> now - lastAttempt attempts > minDelayMs this * 2
                    then attempts\<lparr>failedAttempts := 0\<rparr> else attempts);
              a2 = a1\<lparr>lastAttempt := now\<rparr>;
              a3 = a2\<lparr>failedAttempts := (if failedAttempts a2 \<noteq> 0 then failedAttempts a2 else 0) + 1\<rparr>
          in bind_io
               (if failedAttempts a3 \<ge> maxFailedAttempts this then
                  bind_io (console_log ''Rate limit exceeded. Locked out for 5 minutes.'')
                    (\<lambda>_. return_io (a3\<lparr>lockedUntil := now + lockoutDuration this\<rparr>))
                else return_io a3)
               (saveAttempts env))))
       (\<lambda>error. console_log (''Could not record rate limit attempt: '' @ message error))"

definition unlink_attempts :: "env \<Rightarrow> unit io" where
  "unlink_attempts env w =
     (case attempts_file w of
        NoFile \<Rightarrow> (Inl (Error ''ENOENT: no such file or directory'' (Some ''ENOENT'')), w)
      | _ \<Rightarrow> if attempts_unlink_fails env
             then (Inl (Error ''EACCES: permission denied'' (Some ''EACCES'')), w)
             else (Inr (), w\<lparr>attempts_file := NoFile\<rparr>))"

definition reset :: "env \<Rightarrow> unit io" where
  "reset env = try_catch (unlink_attempts env) (\<lambda>error. return_io ())"

section \<open>vault.js\<close>

subsection \<open>The audit log\<close>

definition maxEntries :: nat where
  "maxEntries = 1000"

definition read_audit :: "audit_json io" where
  "read_audit w =
     (case audit_file w of
        NoFile \<Rightarrow> (Inl (Error ''ENOENT: no such file or directory'' (Some ''ENOENT'')), w)
      | BadFile msg \<Rightarrow> (Inl (Error msg None), w)
      | Stored j \<Rightarrow> (Inr j, w))"

definition write_audit :: "env \<Rightarrow> log_entry list \<Rightarrow> unit io" where
  "write_audit env logs w =
     (if audit_write_fails env
      then (Inl (Error ''EACCES: permission denied'' (Some ''EACCES'')), w)
      else (Inr (), w\<lparr>audit_file := Stored (JArray logs)\<rparr>))"

text \<open>\<open>existingLogs.push(logEntry)\<close> throws a \<open>TypeError\<close> when the parsed file is not
  an array; \<open>xs.slice(-n)\<close> keeps the last \<open>n\<close> elements.\<close>

definition array_push :: "audit_json \<Rightarrow> log_entry \<Rightarrow> log_entry list io" where
  "array_push existingLogs logEntry =
     (case existingLogs of
        JArray xs \<Rightarrow> return_io (xs @ [logEntry])
      | JNotArray \<Rightarrow> throw_io (Error ''existingLogs.push is not a function'' None))"

definition slice_last :: "nat \<Rightarrow> 'a list \<Rightarrow> 'a list" where
  "slice_last n xs = drop (length xs - n) xs"

definition auditLogger_log :: "env \<Rightarrow> string \<Rightarrow> string \<Rightarrow> string \<Rightarrow> unit io" where
  "auditLogger_log env action details result =
     try_catch
       (bind_io
          (try_catch
             (bind_io read_audit (\<lambda>parsed. return_io (Some parsed)))
             (\<lambda>error.
                if code error \<noteq> Some ''ENOENT'' then
                  bind_io (console_log (''Could not read audit file: '' @ message error))
                    (\<lambda>_. return_io None)
                else return_io (Some (JArray []))))
          (\<lambda>existingLogs.
             case existingLogs of
               None \<Rightarrow> return_io ()
             | Some logs0 \<Rightarrow>
                 bind_io date_now (\<lambda>now.
                 bind_io (array_push logs0
                            \<lparr>log_timestamp = now, log_action = action, log_details = details,
                             log_result = result, log_pid = process_pid env\<rparr>) (\<lambda>logs1.
                 write_audit env
                   (if length logs1 > maxEntries then slice_last maxEntries logs1 else logs1)))))
       (\<lambda>error. console_log (''Could not write audit log: '' @ message error))"


subsection \<open>File system and lock calls\<close>

definition fs_error :: "string \<Rightarrow> js_error" where
  "fs_error c = Error (c @ '': file system error'') (Some c)"

definition fs_access :: "env \<Rightarrow> path \<Rightarrow> unit io" where
  "fs_access env p w =
     (case vault_files w p of
        None \<Rightarrow> (Inl (fs_error ''ENOENT''), w)
      | Some c \<Rightarrow> if access_fails env p then (Inl (fs_error ''EACCES''), w) else (Inr (), w))"

definition fs_access_dirname_W_OK :: "env \<Rightarrow> path \<Rightarrow> unit io" where
  "fs_access_dirname_W_OK env p w =
     (if parent_writable env p then (Inr (), w) else (Inl (fs_error ''EACCES''), w))"

definition fs_readFile :: "env \<Rightarrow> path \<Rightarrow> file_content io" where
  "fs_readFile env p w =
     (case vault_files w p of
        None \<Rightarrow> (Inl (fs_error ''ENOENT''), w)
      | Some c \<Rightarrow> if read_fails env p then (Inl (fs_error ''EACCES''), w) else (Inr c, w))"

definition fs_writeFile :: "env \<Rightarrow> path \<Rightarrow> file_content \<Rightarrow> unit io" where
  "fs_writeFile env p c w =
     (if write_fails env p then (Inl (fs_error ''EACCES''), w)
      else (Inr (), w\<lparr>vault_files := (vault_files w)(p \<mapsto> c)\<rparr>))"

definition fs_unlink :: "env \<Rightarrow> path \<Rightarrow> unit io" where
  "fs_unlink env p w =
     (case vault_files w p of
        None \<Rightarrow> (Inl (fs_error ''ENOENT''), w)
      | Some c \<Rightarrow> if unlink_fails env p then (Inl (fs_error ''EACCES''), w)
                  else (Inr (), w\<lparr>vault_files := (vault_files w)(p := None)\<rparr>))"

definition fs_copyFile :: "env \<Rightarrow> path \<Rightarrow> path \<Rightarrow> unit io" where
  "fs_copyFile env src dst w =
     (case vault_files w src of
        None \<Rightarrow> (Inl (fs_error ''ENOENT''), w)
      | Some c \<Rightarrow> if copy_fails env src dst then (Inl (fs_error ''EIO''), w)
                  else (Inr (), w\<lparr>vault_files := (vault_files w)(dst \<mapsto> copy_transfer env c)\<rparr>))"

definition fs_chmod :: "env \<Rightarrow> path \<Rightarrow> unit io" where
  "fs_chmod env p w =
     (case vault_files w p of
        None \<Rightarrow> (Inl (fs_error ''ENOENT''), w)
      | Some c \<Rightarrow> if chmod_fails env p then (Inl (fs_error ''EPERM''), w) else (Inr (), w))"

definition fs_stat_size :: "env \<Rightarrow> path \<Rightarrow> nat io" where
  "fs_stat_size env p w =
     (case vault_files w p of
        None \<Rightarrow> (Inl (fs_error ''ENOENT''), w)
      | Some c \<Rightarrow> if stat_fails env p then (Inl (fs_error ''EACCES''), w)
                  else (Inr (text_size env c), w))"

definition JSON_parse_file :: "file_content \<Rightarrow> payload io" where
  "JSON_parse_file c =
     (case c of
        NotJson \<Rightarrow> throw_io (Error ''Unexpected token in JSON'' None)
      | Json p \<Rightarrow> return_io p)"

definition lockfile_lock :: "env \<Rightarrow> path \<Rightarrow> nat io" where
  "lockfile_lock env p w =
     (case vault_files w p of
        None \<Rightarrow> (Inl (fs_error ''ENOENT''), w)
      | Some c \<Rightarrow>
          if lock_busy env p then (Inl (Error ''Lock file is already being held'' (Some ''ELOCKED'')), w)
          else (Inr (next_lock w),
                w\<lparr>held_locks := p # held_locks w, next_lock := Suc (next_lock w)\<rparr>))"

definition lockfile_release :: "env \<Rightarrow> path \<Rightarrow> nat \<Rightarrow> unit io" where
  "lockfile_release env p release w =
     (if release_fails env p then (Inl (Error ''Lock is already released'' (Some ''ERELEASED'')), w)
      else (Inr (), w\<lparr>held_locks := removeAll p (held_locks w)\<rparr>))"

definition trackLock :: "path \<Rightarrow> nat \<Rightarrow> unit io" where
  "trackLock vaultPath release w = (Inr (), w\<lparr>activeLocks := activeLocks w @ [(vaultPath, release)]\<rparr>)"

definition untrackLock :: "path \<Rightarrow> nat \<Rightarrow> unit io" where
  "untrackLock vaultPath release w =
     (Inr (), w\<lparr>activeLocks := filter (\<lambda>lock. snd lock \<noteq> release) (activeLocks w)\<rparr>)"

subsection \<open>The vault operations\<close>

definition vaultExists :: "env \<Rightarrow> path \<Rightarrow> bool io" where
  "vaultExists env vaultPath =
     try_catch (bind_io (fs_access env vaultPath) (\<lambda>_. return_io True)) (\<lambda>error. return_io False)"

definition loadVault :: "env \<Rightarrow> path \<Rightarrow> string \<Rightarrow> nat io" where
  "loadVault env vaultPath password =
     bind_io (waitIfNeeded passwordRateLimiter) (\<lambda>_.
     bind_io (vaultExists env vaultPath) (\<lambda>exists.
       if \<not> exists then throw_io (Error ''Vault file does not exist'' None)
       else
         bind_io (fs_readFile env vaultPath) (\<lambda>text.
         bind_io (JSON_parse_file text) (\<lambda>encrypted.
         try_catch
           (bind_io (decryptJson env encrypted password) (\<lambda>decrypted.
            bind_io (reset env) (\<lambda>_.
            bind_io (auditLogger_log env ''vault_access'' (''Successfully accessed '' @ vaultPath) ''success'') (\<lambda>_.
            return_io decrypted))))
           (\<lambda>error.
              bind_io (recordFailure passwordRateLimiter env) (\<lambda>_.
              bind_io (auditLogger_log env ''vault_access'' (''Failed to access '' @ vaultPath) ''failure'') (\<lambda>_.
              throw_io error)))))))"

text \<open>
  \<open>saveVault\<close>: the assignment \<open>vault.updatedAt = ...\<close> writes into the caller's object;
  then the lock is taken (a missing file is tolerated), the vault is encrypted and written,
  and the lock is released in a \<open>finally\<close> block.
\<close>

definition set_updatedAt :: "nat \<Rightarrow> int \<Rightarrow> unit io" where
  "set_updatedAt obj t w =
     (Inr (), w\<lparr>objects := (objects w)(obj := (objects w obj)\<lparr>updatedAt := t\<rparr>)\<rparr>)"

definition acquire_lock :: "env \<Rightarrow> path \<Rightarrow> nat option io" where
  "acquire_lock env vaultPath =
     try_catch
       (bind_io (lockfile_lock env vaultPath) (\<lambda>release.
        bind_io (trackLock vaultPath release) (\<lambda>_.
        return_io (Some release))))
       (\<lambda>error.
          if code error \<noteq> Some ''ENOENT''
          then throw_io (Error ''Failed to acquire lock on vault file'' None)
          else return_io None)"

definition write_encrypted :: "env \<Rightarrow> path \<Rightarrow> string \<Rightarrow> nat \<Rightarrow> unit io" where
  "write_encrypted env vaultPath password vault =
     bind_io (encryptJson env vault password) (\<lambda>encrypted.
     fs_writeFile env vaultPath (Json encrypted))"

definition release_lock :: "env \<Rightarrow> path \<Rightarrow> nat option \<Rightarrow> unit io" where
  "release_lock env vaultPath release =
     (case release of
        None \<Rightarrow> return_io ()
      | Some r \<Rightarrow> bind_io (untrackLock vaultPath r) (\<lambda>_. lockfile_release env vaultPath r))"

definition saveVault :: "env \<Rightarrow> path \<Rightarrow> string \<Rightarrow> nat \<Rightarrow> unit io" where
  "saveVault env vaultPath password vault =
     bind_io date_now (\<lambda>now.
     bind_io (set_updatedAt vault now) (\<lambda>_.
     bind_io (acquire_lock env vaultPath) (\<lambda>release.
     try_finally (write_encrypted env vaultPath password vault)
       (release_lock env vaultPath release))))"

definition changeMasterPassword :: "env \<Rightarrow> path \<Rightarrow> string \<Rightarrow> string \<Rightarrow> unit io" where
  "changeMasterPassword env vaultPath oldPassword newPassword =
     (let backupPath = vaultPath @ ''.backup'' in
      try_catch
        (bind_io (loadVault env vaultPath oldPassword) (\<lambda>vault.
         bind_io (JSON_stringify env vault) (\<lambda>text.
         bind_io (JSON_parse env text) (\<lambda>vaultClone.
         bind_io (saveVault env vaultPath newPassword vaultClone) (\<lambda>_.
         try_catch (fs_unlink env backupPath)
           (\<lambda>error.
              if code error \<noteq> Some ''ENOENT''
              then console_log (''Warning: Could not remove backup file: '' @ message error)
              else return_io ()))))))
        (\<lambda>error.
           bind_io (try_catch (fs_unlink env backupPath) (\<lambda>backupError. return_io ())) (\<lambda>_.
           throw_io error)))"







section \<open>validation.js\<close>

text \<open>
  A JavaScript string is a sequence of UTF-16 code units; \<open>key.length\<close> counts code
  units and \<open>key.trim()\<close> strips the ECMAScript WhiteSpace and LineTerminator code points
  (all of them lie in the Basic Multilingual Plane, so each is one code unit).
\<close>

type_synonym js_string = "16 word list"

definition js_str :: "string \<Rightarrow> js_string" where
  "js_str s = map (\<lambda>c. of_nat (of_char c)) s"

datatype validation = Valid | Invalid string

definition is_white_space :: "16 word \<Rightarrow> bool" where
  "is_white_space c \<longleftrightarrow>
     c = 0x09 \<or> c = 0x0A \<or> c = 0x0B \<or> c = 0x0C \<or> c = 0x0D \<or> c = 0x20 \<or>
     c = 0xA0 \<or> c = 0x1680 \<or> (0x2000 \<le> c \<and> c \<le> 0x200A) \<or>
     c = 0x2028 \<or> c = 0x2029 \<or> c = 0x202F \<or> c = 0x205F \<or> c = 0x3000 \<or>
     c = 0xFEFF"

definition trim :: "js_string \<Rightarrow> js_string" where
  "trim s = rev (dropWhile is_white_space (rev (dropWhile is_white_space s)))"

definition invalidChars :: "16 word list" where
  "invalidChars = [0x00, 0x0A, 0x0D]"

text \<open>
  \<open>validateEntryKey\<close>: the checks in the order of the source. For a string argument
  \<open>!key\<close> holds exactly for the empty string.
\<close>

definition validateEntryKey :: "js_string \<Rightarrow> validation" where
  "validateEntryKey key =
     (if key = [] \<or> length (trim key) = 0 then
        Invalid ''Entry name cannot be empty''
      else if length key > 255 then
        Invalid ''Entry name too long (max 255 characters)''
      else if list_ex (\<lambda>ch. ch \<in> set key) invalidChars then
        Invalid ''Entry name contains invalid characters (null, newline)''
      else if trim key \<noteq> key then
        Invalid ''Entry name cannot start or end with whitespace''
      else Valid)"

subsection \<open>The key rule in the words of the specification\<close>

text \<open>
  The specification asks for a non-empty string of at most 255 bytes without control
  characters and without leading or trailing whitespace. Bytes are those of the UTF-8
  form (a surrogate code unit is half of a four-byte sequence); control characters are
  the C0 and C1 controls and DEL.
\<close>

definition utf8_bytes :: "16 word \<Rightarrow> nat" where
  "utf8_bytes c = (if c < 0x80 then 1 else if c < 0x800 then 2
                   else if 0xD800 \<le> c \<and> c \<le> 0xDFFF then 2 else 3)"

definition utf8_length :: "js_string \<Rightarrow> nat" where
  "utf8_length s = sum_list (map utf8_bytes s)"

definition is_control_char :: "16 word \<Rightarrow> bool" where
  "is_control_char c \<longleftrightarrow> c < 0x20 \<or> (0x7F \<le> c \<and> c \<le> 0x9F)"

definition entry_key_spec :: "js_string \<Rightarrow> bool" where
  "entry_key_spec key \<longleftrightarrow>
     key \<noteq> [] \<and> utf8_length key \<le> 255 \<and> \<not> list_ex is_control_char key \<and>
     \<not> is_white_space (hd key) \<and> \<not> is_white_space (last key)"

section \<open>Notions used in the statements\<close>

text \<open>
  What \<open>decryptJson\<close> and \<open>encryptJson\<close> compute, as functions of the payload, the
  password and the random bytes drawn (\<open>decryptJson_fst\<close> and \<open>encryptJson_fst\<close> below
  prove that they are).
\<close>

definition decrypt_value :: "env \<Rightarrow> payload \<Rightarrow> string \<Rightarrow> vault option" where
  "decrypt_value env payload password =
     (case p_salt payload of None \<Rightarrow> None | Some s \<Rightarrow>
      case p_iv payload of None \<Rightarrow> None | Some i \<Rightarrow>
      case p_authTag payload of None \<Rightarrow> None | Some t \<Rightarrow>
      case p_data payload of None \<Rightarrow> None | Some d \<Rightarrow>
      case scrypt env password (base64_decode env s) of None \<Rightarrow> None | Some k \<Rightarrow>
      case gcm_decrypt env k (base64_decode env i) (base64_decode env t) (base64_decode env d) of
        None \<Rightarrow> None
      | Some p \<Rightarrow> json_parse env (utf8_decode env p))"

definition drawn :: "env \<Rightarrow> nat \<Rightarrow> nat \<Rightarrow> bytes" where
  "drawn env pos n = map (entropy env) [pos ..< pos + n]"

definition encrypt_value :: "env \<Rightarrow> vault \<Rightarrow> string \<Rightarrow> bytes \<Rightarrow> bytes \<Rightarrow> payload option" where
  "encrypt_value env v password s i =
     (case scrypt env password s of
        None \<Rightarrow> None
      | Some k \<Rightarrow>
          Some \<lparr>p_kdf = Some ''scrypt'', p_salt = Some (base64_encode env s),
                p_iv = Some (base64_encode env i),
                p_authTag = Some (base64_encode env (snd (gcm_encrypt env k i (utf8_encode env (json_stringify env v))))),
                p_data = Some (base64_encode env (fst (gcm_encrypt env k i (utf8_encode env (json_stringify env v)))))\<rparr>)"

text \<open>
  The contract of the built-ins: base64 and UTF-8 decoding invert the encoding, and
  AES-GCM decryption under the same key and nonce, with the tag that encryption
  produced, returns the plaintext. \<open>gcm_authenticates\<close> is the idealised integrity
  property: under another key the tag is rejected.
\<close>

definition primitives_correct :: "env \<Rightarrow> bool" where
  "primitives_correct env \<longleftrightarrow>
     (\<forall>b. base64_decode env (base64_encode env b) = b) \<and>
     (\<forall>t. utf8_decode env (utf8_encode env t) = t) \<and>
     (\<forall>k i p. gcm_decrypt env k i (snd (gcm_encrypt env k i p)) (fst (gcm_encrypt env k i p)) = Some p)"


text \<open>
  \<open>waitIfNeeded\<close> throws only when reading the attempts file fails with a message that
  contains \<open>locked out\<close>; \<open>load_outcome\<close> is what \<open>loadVault\<close> returns or throws.
\<close>

definition limiter_raises :: "world \<Rightarrow> bool" where
  "limiter_raises w =
     (case attempts_file w of BadFile msg \<Rightarrow> js_includes msg ''locked out'' | _ \<Rightarrow> False)"

definition load_outcome :: "env \<Rightarrow> path \<Rightarrow> string \<Rightarrow> world \<Rightarrow> js_error + vault" where
  "load_outcome env vaultPath password w =
     (case fst (waitIfNeeded passwordRateLimiter w) of
        Inl e \<Rightarrow> Inl e
      | Inr waited \<Rightarrow>
          (case vault_files w vaultPath of
             None \<Rightarrow> Inl (Error ''Vault file does not exist'' None)
           | Some c \<Rightarrow>
               if access_fails env vaultPath then Inl (Error ''Vault file does not exist'' None)
               else if read_fails env vaultPath then Inl (fs_error ''EACCES'')
               else (case c of
                       NotJson \<Rightarrow> Inl (Error ''Unexpected token in JSON'' None)
                     | Json sealed \<Rightarrow>
                         (case decrypt_value env sealed password of
                            None \<Rightarrow> Inl decryption_failed
                          | Some v \<Rightarrow> Inr v))))"

definition persisted_failedAttempts :: "world \<Rightarrow> int" where
  "persisted_failedAttempts w = (case attempts_file w of Stored a \<Rightarrow> failedAttempts a | _ \<Rightarrow> 0)"



text \<open>The vault as \<open>saveVault\<close> stamps it, and the payload it writes.\<close>

definition stamped :: "world \<Rightarrow> nat \<Rightarrow> vault" where
  "stamped w vault = (objects w vault)\<lparr>updatedAt := clock w\<rparr>"

definition save_sealed :: "env \<Rightarrow> string \<Rightarrow> nat \<Rightarrow> world \<Rightarrow> payload option" where
  "save_sealed env password vault w =
     encrypt_value env (stamped w vault) password
       (drawn env (entropy_pos w) 16) (drawn env (entropy_pos w + 16) 12)"

section \<open>A small instance\<close>

text \<open>
  An environment without faults and with stand-ins for the built-ins: a key derivation
  that concatenates password and salt, a cipher that shifts every byte and whose tag is
  key and nonce, the Latin-1 coding for base64 and UTF-8, and a serialiser that is exact
  on the example vault and its re-stamped versions. The theorems below are stated for
  every environment; the instance shows that their hypotheses can be met.
\<close>

definition text_bytes :: "string \<Rightarrow> bytes" where
  "text_bytes s = map (\<lambda>c. of_nat (of_char c)) s"

definition bytes_text :: "bytes \<Rightarrow> string" where
  "bytes_text bs = map (\<lambda>b. char_of (unat b)) bs"

definition read_nat :: "string \<Rightarrow> nat" where
  "read_nat s = foldl (\<lambda>acc c. 10 * acc + (of_char c - 48)) 0 s"

definition show_int :: "int \<Rightarrow> string" where
  "show_int i = (if i < 0 then CHR ''-'' # show_nat (nat (- i)) else show_nat (nat i))"

definition read_int :: "string \<Rightarrow> int" where
  "read_int s = (case s of [] \<Rightarrow> 0 | c # r \<Rightarrow> if c = CHR ''-'' then - int (read_nat r) else int (read_nat s))"

definition demo_vault :: vault where
  "demo_vault = \<lparr>entries = [(''github'', \<lparr>entry_password = ''s3cr3t'', entry_username = Some ''alice''\<rparr>)],
                  createdAt = 1000, updatedAt = 1000\<rparr>"

definition demo_env :: env where
  "demo_env = \<lparr>
     scrypt = (\<lambda>password s. Some (text_bytes password @ s)),
     gcm_encrypt = (\<lambda>k i p. (map (\<lambda>b. b + 1) p, k @ i)),
     gcm_decrypt = (\<lambda>k i t d. if t = k @ i then Some (map (\<lambda>b. b - 1) d) else None),
     base64_encode = bytes_text,
     base64_decode = text_bytes,
     utf8_encode = text_bytes,
     utf8_decode = bytes_text,
     json_stringify = (\<lambda>v. show_int (updatedAt v)),
     json_parse = (\<lambda>s. if s = [] then None else Some (demo_vault\<lparr>updatedAt := read_int s\<rparr>)),
     entropy = (\<lambda>n. of_nat n),
     process_pid = 4242,
     text_size = (\<lambda>c. case c of NotJson \<Rightarrow> 7 | Json p \<Rightarrow> 100 + length ((case p_data p of None \<Rightarrow> [] | Some d \<Rightarrow> d))),
     attempts_write_fails = False,
     attempts_unlink_fails = False,
     audit_write_fails = False,
     access_fails = (\<lambda>p. False),
     read_fails = (\<lambda>p. False),
     write_fails = (\<lambda>p. False),
     unlink_fails = (\<lambda>p. False),
     chmod_fails = (\<lambda>p. False),
     stat_fails = (\<lambda>p. False),
     copy_fails = (\<lambda>p q. False),
     copy_transfer = (\<lambda>c. c),
     parent_writable = (\<lambda>p. True),
     lock_busy = (\<lambda>p. False),
     release_fails = (\<lambda>p. False)\<rparr>"

definition demo_world :: world where
  "demo_world = \<lparr>
     clock = 5000, console = [], entropy_pos = 0,
     buffers = (\<lambda>b. []), next_buffer = 0,
     objects = (\<lambda>a. demo_vault), next_object = 1,
     vault_files = (\<lambda>p. None),
     attempts_file = NoFile, audit_file = NoFile,
     held_locks = [], next_lock = 0, activeLocks = []\<rparr>"

definition saved_world :: world where
  "saved_world = snd (saveVault demo_env ''/tmp/v.json'' ''correct-horse'' 0 demo_world)"

text \<open>Worlds for the throttle and the audit log, and an environment whose \<open>copyFile\<close>
  corrupts the copy.\<close>

definition locked_saved_world :: world where
  "locked_saved_world = saved_world\<lparr>clock := 1000500,
     attempts_file := Stored \<lparr>lastAttempt = 1000000, failedAttempts = 10, lockedUntil = 1300000\<rparr>\<rparr>"

definition decay_world :: world where
  "decay_world = demo_world\<lparr>clock := 10000,
     attempts_file := Stored \<lparr>lastAttempt = 1000, failedAttempts = 5, lockedUntil = 0\<rparr>\<rparr>"

definition ninth_world :: world where
  "ninth_world = demo_world\<lparr>clock := 1500,
     attempts_file := Stored \<lparr>lastAttempt = 1000, failedAttempts = 9, lockedUntil = 0\<rparr>\<rparr>"


definition corrupting_env :: env where
  "corrupting_env = demo_env\<lparr>copy_transfer := (\<lambda>c. NotJson)\<rparr>"

section \<open>Basic facts\<close>

declare show_nat.simps [simp del]

lemmas io_defs = return_io_def throw_io_def bind_io_def try_catch_def try_finally_def
  date_now_def sleep_def console_log_def buffer_alloc_def buffer_read_def randomBytes_def
  randomFillSync_def buffer_fill_def object_alloc_def JSON_parse_def JSON_stringify_def Let_def

lemmas crypto_defs = deriveKey_def secureWipe_def cipher_gcm_def toString_base64_def
  Buffer_from_base64_def decipher_gcm_def toString_utf8_def

lemmas fs_defs = fs_access_def fs_access_dirname_W_OK_def fs_readFile_def fs_writeFile_def
  fs_unlink_def fs_copyFile_def fs_chmod_def fs_stat_size_def JSON_parse_file_def
  lockfile_lock_def lockfile_release_def trackLock_def untrackLock_def vaultExists_def
  set_updatedAt_def

lemmas limiter_defs = recordFailure_def try_catch_def bind_io_def getAttempts_def date_now_def
  console_log_def saveAttempts_def throw_io_def return_io_def Let_def passwordRateLimiter_def


text \<open>The control operators in terms of the result and the final state of their parts.\<close>

lemma bind_io_proj:
  "bind_io m f w = (case fst (m w) of Inl e \<Rightarrow> (Inl e, snd (m w)) | Inr x \<Rightarrow> f x (snd (m w)))"
  by (simp add: bind_io_def split: prod.splits sum.splits)

lemma try_catch_proj:
  "try_catch m h w = (case fst (m w) of Inl e \<Rightarrow> h e (snd (m w)) | Inr x \<Rightarrow> (Inr x, snd (m w)))"
  by (simp add: try_catch_def split: prod.splits sum.splits)

lemma try_finally_proj:
  "try_finally m fin w =
     (case fst (fin (snd (m w))) of
        Inl e \<Rightarrow> (Inl e, snd (fin (snd (m w))))
      | Inr u \<Rightarrow> (fst (m w), snd (fin (snd (m w)))))"
  by (simp add: try_finally_def split: prod.splits sum.splits)

subsection \<open>Decimal numerals\<close>

lemma digit_char_code: "d < 10 \<Longrightarrow> of_char (digit_char d) = 48 + d"
  by (simp add: digit_char_def)

lemma show_nat_digits: "c \<in> set (show_nat n) \<Longrightarrow> \<exists>d<10. c = digit_char d"
proof (induction n rule: show_nat.induct)
  case (1 n)
  show ?case
  proof (cases "n < 10")
    case True
    with 1(2) show ?thesis by (auto simp: show_nat.simps [of n])
  next
    case False
    with 1 show ?thesis
      by (auto simp: show_nat.simps [of n] intro: exI [of _ "n mod 10"])
  qed
qed

lemma show_nat_no_l: "CHR ''l'' \<notin> set (show_nat n)"
proof
  assume "CHR ''l'' \<in> set (show_nat n)"
  then obtain d where "d < 10" and "CHR ''l'' = digit_char d"
    using show_nat_digits by blast
  then have "of_char (CHR ''l'') = 48 + d"
    using digit_char_code [of d] by simp
  with \<open>d < 10\<close> show False by simp
qed

lemma show_nat_no_minus: "CHR ''-'' \<notin> set (show_nat n)"
proof
  assume "CHR ''-'' \<in> set (show_nat n)"
  then obtain d where "d < 10" and "CHR ''-'' = digit_char d"
    using show_nat_digits by blast
  then have "of_char (CHR ''-'') = 48 + d"
    using digit_char_code [of d] by simp
  then show False by simp
qed

lemma show_nat_nonempty: "show_nat n \<noteq> []"
  by (subst show_nat.simps) simp

lemma read_nat_snoc: "read_nat (s @ [c]) = 10 * read_nat s + (of_char c - 48)"
  by (simp add: read_nat_def)

lemma read_nat_show_nat: "read_nat (show_nat n) = n"
proof (induction n rule: show_nat.induct)
  case (1 n)
  show ?case
  proof (cases "n < 10")
    case True
    then show ?thesis
      by (simp add: show_nat.simps [of n] read_nat_def digit_char_code)
  next
    case False
    then have "read_nat (show_nat (n div 10)) = n div 10" using 1 by simp
    with False show ?thesis
      by (simp add: show_nat.simps [of n] read_nat_snoc digit_char_code)
  qed
qed

lemma read_int_show_int: "read_int (show_int i) = i"
proof (cases "i < 0")
  case True
  then show ?thesis by (simp add: read_int_def show_int_def read_nat_show_nat)
next
  case False
  obtain c r where cr: "show_nat (nat i) = c # r"
    using show_nat_nonempty [of "nat i"] by (cases "show_nat (nat i)") auto
  then have "c \<noteq> CHR ''-''"
    using show_nat_no_minus [of "nat i"] by auto
  with False cr show ?thesis
    using read_nat_show_nat [of "nat i"] by (simp add: read_int_def show_int_def)
qed

lemma show_int_nonempty: "show_int i \<noteq> []"
  by (simp add: show_int_def show_nat_nonempty)

section \<open>Facts about crypto.js\<close>

lemma decryptJson_fst:
  "fst (decryptJson env payload password w) =
     (case decrypt_value env payload password of
        None \<Rightarrow> Inl decryption_failed
      | Some v \<Rightarrow> Inr (next_object w))"
  by (simp add: decryptJson_def decrypt_value_def io_defs crypto_defs split: option.splits)

lemma decryptJson_objects:
  "objects (snd (decryptJson env payload password w)) =
     (case decrypt_value env payload password of
        None \<Rightarrow> objects w
      | Some v \<Rightarrow> (objects w)(next_object w := v))"
  by (simp add: decryptJson_def decrypt_value_def io_defs crypto_defs split: option.splits)

lemma decryptJson_next_object:
  "next_object (snd (decryptJson env payload password w)) =
     (case decrypt_value env payload password of
        None \<Rightarrow> next_object w
      | Some v \<Rightarrow> Suc (next_object w))"
  by (simp add: decryptJson_def decrypt_value_def io_defs crypto_defs split: option.splits)

lemma decryptJson_frame:
  "vault_files (snd (decryptJson env payload password w)) = vault_files w"
  "attempts_file (snd (decryptJson env payload password w)) = attempts_file w"
  "audit_file (snd (decryptJson env payload password w)) = audit_file w"
  "clock (snd (decryptJson env payload password w)) = clock w"
  "held_locks (snd (decryptJson env payload password w)) = held_locks w"
  "next_lock (snd (decryptJson env payload password w)) = next_lock w"
  "activeLocks (snd (decryptJson env payload password w)) = activeLocks w"
  by (simp_all add: decryptJson_def io_defs crypto_defs split: option.splits)

lemma encryptJson_fst:
  "fst (encryptJson env obj password w) =
     (case encrypt_value env (objects w obj) password
             (drawn env (entropy_pos w) 16) (drawn env (entropy_pos w + 16) 12) of
        None \<Rightarrow> Inl (Error ''Invalid scrypt params: memory limit exceeded'' None)
      | Some p \<Rightarrow> Inr p)"
  by (simp add: encryptJson_def encrypt_value_def drawn_def io_defs crypto_defs split: option.splits)

lemma encryptJson_frame:
  "objects (snd (encryptJson env obj password w)) = objects w"
  "next_object (snd (encryptJson env obj password w)) = next_object w"
  "vault_files (snd (encryptJson env obj password w)) = vault_files w"
  "attempts_file (snd (encryptJson env obj password w)) = attempts_file w"
  "audit_file (snd (encryptJson env obj password w)) = audit_file w"
  "clock (snd (encryptJson env obj password w)) = clock w"
  "held_locks (snd (encryptJson env obj password w)) = held_locks w"
  "next_lock (snd (encryptJson env obj password w)) = next_lock w"
  "activeLocks (snd (encryptJson env obj password w)) = activeLocks w"
  by (simp_all add: encryptJson_def io_defs crypto_defs split: option.splits)

lemma decrypt_encrypt_value:
  assumes "primitives_correct env"
      and "json_parse env (json_stringify env v) = Some v"
      and "encrypt_value env v password s i = Some sealed"
  shows "decrypt_value env sealed password = Some v"
  using assms
  by (auto simp: primitives_correct_def encrypt_value_def decrypt_value_def split: option.splits)



lemmas crypto_frames = decryptJson_fst decryptJson_objects decryptJson_next_object
  decryptJson_frame encryptJson_fst encryptJson_frame

section \<open>Facts about ratelimit.js\<close>

text \<open>
  The message of the lockout error reads \<open>Locked out\<close> with a capital letter; the
  \<open>catch\<close> block of \<open>waitIfNeeded\<close> looks for \<open>locked out\<close>.
\<close>

lemma js_includes_skip:
  "x \<notin> set ds \<Longrightarrow> js_includes (ds @ rest) (x # p) = js_includes rest (x # p)"
  by (induction ds) auto

lemma lockout_message_not_matched: "\<not> js_includes (lockout_message t) ''locked out''"
  by (simp add: lockout_message_def js_includes_skip [OF show_nat_no_l])

lemma waitIfNeeded_locked:
  assumes "attempts_file w = Stored a" and "lockedUntil a \<noteq> 0" and "clock w < lockedUntil a"
  shows "waitIfNeeded this w = (Inr False, w)"
  using assms
  by (simp add: waitIfNeeded_def try_catch_def bind_io_def getAttempts_def date_now_def
      throw_io_def return_io_def lockout_message_not_matched)

lemma waitIfNeeded_fst:
  "fst (waitIfNeeded this w) =
     (case attempts_file w of
        NoFile \<Rightarrow> Inr True
      | BadFile msg \<Rightarrow> if js_includes msg ''locked out'' then Inl (Error msg None) else Inr False
      | Stored a \<Rightarrow> if lockedUntil a \<noteq> 0 \<and> clock w < lockedUntil a then Inr False else Inr True)"
  by (simp add: waitIfNeeded_def try_catch_def bind_io_def getAttempts_def date_now_def sleep_def
      throw_io_def return_io_def lockout_message_not_matched split: stored.splits)

lemma waitIfNeeded_frame:
  "vault_files (snd (waitIfNeeded this w)) = vault_files w"
  "attempts_file (snd (waitIfNeeded this w)) = attempts_file w"
  "audit_file (snd (waitIfNeeded this w)) = audit_file w"
  "objects (snd (waitIfNeeded this w)) = objects w"
  "next_object (snd (waitIfNeeded this w)) = next_object w"
  "clock w \<le> clock (snd (waitIfNeeded passwordRateLimiter w))"
  by (simp_all add: waitIfNeeded_def try_catch_def bind_io_def getAttempts_def date_now_def sleep_def
      throw_io_def return_io_def lockout_message_not_matched passwordRateLimiter_def split: stored.splits)

lemma waitIfNeeded_raises_iff:
  "(\<exists>e. fst (waitIfNeeded this w) = Inl e) \<longleftrightarrow> limiter_raises w"
  by (simp add: waitIfNeeded_fst limiter_raises_def split: stored.splits)

lemma recordFailure_fst: "fst (recordFailure this env w) = Inr ()"
  by (simp add: recordFailure_def try_catch_def bind_io_def getAttempts_def date_now_def
      console_log_def saveAttempts_def throw_io_def return_io_def Let_def split: stored.splits)

lemma recordFailure_frame:
  "vault_files (snd (recordFailure this env w)) = vault_files w"
  "audit_file (snd (recordFailure this env w)) = audit_file w"
  "objects (snd (recordFailure this env w)) = objects w"
  "next_object (snd (recordFailure this env w)) = next_object w"
  "clock (snd (recordFailure this env w)) = clock w"
  by (simp_all add: recordFailure_def try_catch_def bind_io_def getAttempts_def date_now_def
      console_log_def saveAttempts_def throw_io_def return_io_def Let_def split: stored.splits)

lemma reset_fst: "fst (reset env w) = Inr ()"
  by (simp add: reset_def unlink_attempts_def try_catch_def return_io_def split: stored.splits)

lemma reset_frame:
  "vault_files (snd (reset env w)) = vault_files w"
  "audit_file (snd (reset env w)) = audit_file w"
  "objects (snd (reset env w)) = objects w"
  "next_object (snd (reset env w)) = next_object w"
  "clock (snd (reset env w)) = clock w"
  by (simp_all add: reset_def unlink_attempts_def try_catch_def return_io_def split: stored.splits)

lemma reset_attempts:
  "attempts_file (snd (reset env w)) = attempts_file w \<or> attempts_file (snd (reset env w)) = NoFile"
  by (simp add: reset_def unlink_attempts_def try_catch_def return_io_def split: stored.splits)

section \<open>Facts about the audit log\<close>

lemma auditLogger_log_fst: "fst (auditLogger_log env action details result w) = Inr ()"
  by (simp add: auditLogger_log_def read_audit_def write_audit_def array_push_def
      try_catch_def bind_io_def date_now_def console_log_def throw_io_def return_io_def
      split: stored.splits audit_json.splits)

lemma auditLogger_log_frame:
  "vault_files (snd (auditLogger_log env action details result w)) = vault_files w"
  "attempts_file (snd (auditLogger_log env action details result w)) = attempts_file w"
  "objects (snd (auditLogger_log env action details result w)) = objects w"
  "next_object (snd (auditLogger_log env action details result w)) = next_object w"
  "clock (snd (auditLogger_log env action details result w)) = clock w"
  by (simp_all add: auditLogger_log_def read_audit_def write_audit_def array_push_def
      try_catch_def bind_io_def date_now_def console_log_def throw_io_def return_io_def
      split: stored.splits audit_json.splits)










lemmas limiter_frames = waitIfNeeded_frame(1-5) recordFailure_fst recordFailure_frame
  reset_fst reset_frame auditLogger_log_fst auditLogger_log_frame

section \<open>Facts about the vault operations\<close>

subsection \<open>loadVault\<close>

lemma loadVault_fst:
  "fst (loadVault env vaultPath password w) =
     (case load_outcome env vaultPath password w of Inl e \<Rightarrow> Inl e | Inr v \<Rightarrow> Inr (next_object w))"
  by (simp add: loadVault_def load_outcome_def bind_io_proj try_catch_proj fs_defs
      return_io_def throw_io_def limiter_frames crypto_frames
      split: sum.splits option.splits file_content.splits)

lemma loadVault_objects:
  "objects (snd (loadVault env vaultPath password w)) =
     (case load_outcome env vaultPath password w of
        Inl e \<Rightarrow> objects w
      | Inr v \<Rightarrow> (objects w)(next_object w := v))"
  by (simp add: loadVault_def load_outcome_def bind_io_proj try_catch_proj fs_defs
      return_io_def throw_io_def limiter_frames crypto_frames
      split: sum.splits option.splits file_content.splits)

lemma loadVault_next_object:
  "next_object (snd (loadVault env vaultPath password w)) =
     (case load_outcome env vaultPath password w of
        Inl e \<Rightarrow> next_object w
      | Inr v \<Rightarrow> Suc (next_object w))"
  by (simp add: loadVault_def load_outcome_def bind_io_proj try_catch_proj fs_defs
      return_io_def throw_io_def limiter_frames crypto_frames
      split: sum.splits option.splits file_content.splits)


lemma load_outcome_Inr_iff:
  "load_outcome env vaultPath password w = Inr v \<longleftrightarrow>
     \<not> limiter_raises w \<and> \<not> access_fails env vaultPath \<and> \<not> read_fails env vaultPath \<and>
     (\<exists>sealed. vault_files w vaultPath = Some (Json sealed) \<and>
               decrypt_value env sealed password = Some v)"
  using waitIfNeeded_raises_iff [of passwordRateLimiter w]
  by (auto simp: load_outcome_def split: sum.splits option.splits file_content.splits)

lemma loadVault_attempts_success:
  assumes "load_outcome env vaultPath password w = Inr v"
  shows "attempts_file (snd (loadVault env vaultPath password w)) = attempts_file w \<or>
         attempts_file (snd (loadVault env vaultPath password w)) = NoFile"
proof -
  from assms have "\<not> access_fails env vaultPath" "\<not> read_fails env vaultPath"
    and "\<exists>sealed. vault_files w vaultPath = Some (Json sealed) \<and>
               decrypt_value env sealed password = Some v"
    and "\<exists>b. fst (waitIfNeeded passwordRateLimiter w) = Inr b"
    by (auto simp: load_outcome_def split: sum.splits option.splits file_content.splits if_splits)
  then show ?thesis
    using reset_attempts [of env "snd (decryptJson env
        (case the (vault_files w vaultPath) of Json s \<Rightarrow> s) password
        (snd (waitIfNeeded passwordRateLimiter w)))"]
    by (auto simp: loadVault_def bind_io_proj try_catch_proj fs_defs
      return_io_def throw_io_def limiter_frames crypto_frames
      split: sum.splits option.splits file_content.splits)
qed

lemma loadVault_not_raises_after:
  assumes "load_outcome env vaultPath password w = Inr v"
  shows "\<not> limiter_raises (snd (loadVault env vaultPath password w))"
proof -
  from assms have "\<not> limiter_raises w" by (simp add: load_outcome_Inr_iff)
  with loadVault_attempts_success [OF assms] show ?thesis
    by (auto simp: limiter_raises_def)
qed

subsection \<open>saveVault\<close>

lemma acquire_lock_frame:
  "objects (snd (acquire_lock env vaultPath w)) = objects w"
  "next_object (snd (acquire_lock env vaultPath w)) = next_object w"
  "vault_files (snd (acquire_lock env vaultPath w)) = vault_files w"
  "attempts_file (snd (acquire_lock env vaultPath w)) = attempts_file w"
  "audit_file (snd (acquire_lock env vaultPath w)) = audit_file w"
  "clock (snd (acquire_lock env vaultPath w)) = clock w"
  "entropy_pos (snd (acquire_lock env vaultPath w)) = entropy_pos w"
  by (simp_all add: acquire_lock_def try_catch_def bind_io_def lockfile_lock_def trackLock_def
      return_io_def throw_io_def fs_error_def split: option.splits)

lemma release_lock_frame:
  "objects (snd (release_lock env vaultPath release w)) = objects w"
  "next_object (snd (release_lock env vaultPath release w)) = next_object w"
  "vault_files (snd (release_lock env vaultPath release w)) = vault_files w"
  "attempts_file (snd (release_lock env vaultPath release w)) = attempts_file w"
  "audit_file (snd (release_lock env vaultPath release w)) = audit_file w"
  "clock (snd (release_lock env vaultPath release w)) = clock w"
  by (simp_all add: release_lock_def bind_io_def lockfile_release_def untrackLock_def
      return_io_def split: option.splits)

lemma write_encrypted_frame:
  "objects (snd (write_encrypted env vaultPath password vault w)) = objects w"
  "next_object (snd (write_encrypted env vaultPath password vault w)) = next_object w"
  "attempts_file (snd (write_encrypted env vaultPath password vault w)) = attempts_file w"
  "audit_file (snd (write_encrypted env vaultPath password vault w)) = audit_file w"
  "clock (snd (write_encrypted env vaultPath password vault w)) = clock w"
  by (simp_all add: write_encrypted_def bind_io_proj fs_writeFile_def crypto_frames
      split: sum.splits option.splits)

lemma write_encrypted_fst:
  "fst (write_encrypted env vaultPath password vault w) =
     (case encrypt_value env (objects w vault) password
             (drawn env (entropy_pos w) 16) (drawn env (entropy_pos w + 16) 12) of
        None \<Rightarrow> Inl (Error ''Invalid scrypt params: memory limit exceeded'' None)
      | Some sealed \<Rightarrow> if write_fails env vaultPath then Inl (fs_error ''EACCES'') else Inr ())"
  by (simp add: write_encrypted_def bind_io_proj fs_writeFile_def crypto_frames
      split: sum.splits option.splits)

lemma write_encrypted_vault_files:
  "vault_files (snd (write_encrypted env vaultPath password vault w)) =
     (case fst (write_encrypted env vaultPath password vault w) of
        Inl e \<Rightarrow> vault_files w
      | Inr u \<Rightarrow> (vault_files w)(vaultPath \<mapsto>
          Json (the (encrypt_value env (objects w vault) password
             (drawn env (entropy_pos w) 16) (drawn env (entropy_pos w + 16) 12)))))"
  by (simp add: write_encrypted_def bind_io_proj fs_writeFile_def crypto_frames
      split: sum.splits option.splits)

lemmas save_frames = acquire_lock_frame release_lock_frame write_encrypted_frame

lemma saveVault_objects:
  "objects (snd (saveVault env vaultPath password vault w)) =
     (objects w)(vault := (objects w vault)\<lparr>updatedAt := clock w\<rparr>)"
  by (simp add: saveVault_def bind_io_proj try_finally_proj date_now_def set_updatedAt_def
      save_frames split: sum.splits)

lemma saveVault_frame:
  "next_object (snd (saveVault env vaultPath password vault w)) = next_object w"
  "attempts_file (snd (saveVault env vaultPath password vault w)) = attempts_file w"
  "audit_file (snd (saveVault env vaultPath password vault w)) = audit_file w"
  "clock (snd (saveVault env vaultPath password vault w)) = clock w"
  by (simp_all add: saveVault_def bind_io_proj try_finally_proj date_now_def set_updatedAt_def
      save_frames split: sum.splits)

lemma saveVault_success:
  assumes "fst (saveVault env vaultPath password vault w) = Inr ()"
  shows "\<exists>sealed. save_sealed env password vault w = Some sealed \<and>
           vault_files (snd (saveVault env vaultPath password vault w)) =
             (vault_files w)(vaultPath \<mapsto> Json sealed)"
  using assms
  by (auto simp: saveVault_def save_sealed_def stamped_def bind_io_proj try_finally_proj
      date_now_def set_updatedAt_def save_frames write_encrypted_fst write_encrypted_vault_files
      split: sum.splits option.splits if_splits)


subsection \<open>changeMasterPassword\<close>

lemma backup_path_differs: "vaultPath @ ''.backup'' \<noteq> vaultPath"
proof
  assume "vaultPath @ ''.backup'' = vaultPath"
  then have "length (vaultPath @ ''.backup'') = length vaultPath" by simp
  then show False by simp
qed

lemma fs_unlink_frame:
  "objects (snd (fs_unlink env p w)) = objects w"
  "next_object (snd (fs_unlink env p w)) = next_object w"
  "attempts_file (snd (fs_unlink env p w)) = attempts_file w"
  "audit_file (snd (fs_unlink env p w)) = audit_file w"
  "clock (snd (fs_unlink env p w)) = clock w"
  "q \<noteq> p \<Longrightarrow> vault_files (snd (fs_unlink env p w)) q = vault_files w q"
  by (simp_all add: fs_unlink_def split: option.splits)

lemma changeMasterPassword_loaded_object:
  assumes "load_outcome env vaultPath oldPassword w = Inr v"
  shows "objects (snd (changeMasterPassword env vaultPath oldPassword newPassword w)) (next_object w) = v"
  using assms
  by (simp add: changeMasterPassword_def Let_def bind_io_proj try_catch_proj
      loadVault_fst loadVault_objects loadVault_next_object
      JSON_stringify_def JSON_parse_def object_alloc_def return_io_def throw_io_def console_log_def
      saveVault_objects saveVault_frame fs_unlink_frame
      split: sum.splits option.splits)

lemma changeMasterPassword_success:
  assumes "fst (changeMasterPassword env vaultPath oldPassword newPassword w) = Inr ()"
  shows "\<exists>v w2 sealed.
           load_outcome env vaultPath oldPassword w = Inr v \<and>
           json_parse env (json_stringify env v) \<noteq> None \<and>
           objects w2 (Suc (next_object w)) = the (json_parse env (json_stringify env v)) \<and>
           clock w2 = clock (snd (loadVault env vaultPath oldPassword w)) \<and>
           save_sealed env newPassword (Suc (next_object w)) w2 = Some sealed \<and>
           vault_files (snd (changeMasterPassword env vaultPath oldPassword newPassword w)) vaultPath =
             Some (Json sealed) \<and>
           attempts_file (snd (changeMasterPassword env vaultPath oldPassword newPassword w)) =
             attempts_file (snd (loadVault env vaultPath oldPassword w))"
proof -
  let ?w1 = "snd (loadVault env vaultPath oldPassword w)"
  from assms obtain v where lo: "load_outcome env vaultPath oldPassword w = Inr v"
    by (cases "load_outcome env vaultPath oldPassword w")
       (simp_all add: changeMasterPassword_def Let_def bind_io_proj try_catch_proj loadVault_fst
          return_io_def throw_io_def fs_unlink_def split: sum.splits option.splits if_splits)
  have l1: "fst (loadVault env vaultPath oldPassword w) = Inr (next_object w)"
    and o1: "objects ?w1 (next_object w) = v" and n1: "next_object ?w1 = Suc (next_object w)"
    using lo by (simp_all add: loadVault_fst loadVault_objects loadVault_next_object)
  from assms l1 o1 obtain v' where jp: "json_parse env (json_stringify env v) = Some v'"
    by (cases "json_parse env (json_stringify env v)")
       (simp_all add: changeMasterPassword_def Let_def bind_io_proj try_catch_proj
          JSON_stringify_def JSON_parse_def return_io_def throw_io_def fs_unlink_def
          split: sum.splits option.splits if_splits)
  let ?w2 = "snd (object_alloc v' ?w1)"
  have o2: "objects ?w2 (Suc (next_object w)) = v'" and k2: "clock ?w2 = clock ?w1"
    and v2: "vault_files ?w2 = vault_files ?w1" and a2: "attempts_file ?w2 = attempts_file ?w1"
    by (simp_all add: object_alloc_def n1)
  let ?w3 = "snd (saveVault env vaultPath newPassword (Suc (next_object w)) ?w2)"
  from assms l1 o1 jp n1 have s3: "fst (saveVault env vaultPath newPassword (Suc (next_object w)) ?w2) = Inr ()"
    by (simp add: changeMasterPassword_def Let_def bind_io_proj try_catch_proj
          JSON_stringify_def JSON_parse_def object_alloc_def return_io_def throw_io_def fs_unlink_def
          split: sum.splits option.splits if_splits)
  from saveVault_success [OF s3] obtain sealed where
    ss: "save_sealed env newPassword (Suc (next_object w)) ?w2 = Some sealed"
    and f3: "vault_files ?w3 = (vault_files ?w2)(vaultPath \<mapsto> Json sealed)"
    by blast
  have fin: "snd (changeMasterPassword env vaultPath oldPassword newPassword w) =
      snd (try_catch (fs_unlink env (vaultPath @ ''.backup''))
             (\<lambda>error. if code error \<noteq> Some ''ENOENT''
                then console_log (''Warning: Could not remove backup file: '' @ message error)
                else return_io ()) ?w3)"
    using l1 o1 jp n1 s3
    by (simp add: changeMasterPassword_def Let_def bind_io_proj try_catch_proj
          JSON_stringify_def JSON_parse_def object_alloc_def return_io_def throw_io_def console_log_def
          fs_unlink_def split: sum.splits option.splits if_splits)
  have "vault_files (snd (changeMasterPassword env vaultPath oldPassword newPassword w)) vaultPath =
      vault_files ?w3 vaultPath"
    unfolding fin using backup_path_differs [of vaultPath]
    by (auto simp: try_catch_proj fs_unlink_def console_log_def return_io_def
        split: sum.splits option.splits)
  moreover have "attempts_file (snd (changeMasterPassword env vaultPath oldPassword newPassword w)) =
      attempts_file ?w3"
    unfolding fin
    by (auto simp: try_catch_proj fs_unlink_def console_log_def return_io_def
        split: sum.splits option.splits)
  ultimately show ?thesis
    using lo jp o2 k2 ss f3 a2 by (auto simp: saveVault_frame)
qed

lemma changeMasterPassword_fst:
  assumes "load_outcome env vaultPath oldPassword w = Inr v"
      and "json_parse env (json_stringify env v) = Some v"
      and "\<And>w2. fst (saveVault env vaultPath newPassword (Suc (next_object w)) w2) = Inr ()"
  shows "fst (changeMasterPassword env vaultPath oldPassword newPassword w) = Inr ()"
  using assms
  by (simp add: changeMasterPassword_def Let_def bind_io_proj try_catch_proj
      loadVault_fst loadVault_objects loadVault_next_object
      JSON_stringify_def JSON_parse_def object_alloc_def return_io_def throw_io_def console_log_def
      fs_unlink_def split: sum.splits option.splits)

subsection \<open>moveVault\<close>























section \<open>Facts about validation.js\<close>

lemma trim_length_le: "length (trim s) \<le> length (dropWhile is_white_space s)"
  unfolding trim_def
  by (metis length_dropWhile_le length_rev)

lemma trim_fixed_iff:
  "trim s = s \<longleftrightarrow> s = [] \<or> (\<not> is_white_space (hd s) \<and> \<not> is_white_space (last s))"
proof (cases "s = []")
  case True
  then show ?thesis by (simp add: trim_def)
next
  case False
  show ?thesis
  proof
    assume eq: "trim s = s"
    have "length s \<le> length (dropWhile is_white_space s)"
      using trim_length_le [of s] eq by simp
    moreover have "length (takeWhile is_white_space s) + length (dropWhile is_white_space s) = length s"
      by (metis length_append takeWhile_dropWhile_id)
    ultimately have "length (takeWhile is_white_space s) = 0" by arith
    then have "takeWhile is_white_space s = []" by simp
    then have d: "dropWhile is_white_space s = s"
      using takeWhile_dropWhile_id [of is_white_space s] by simp
    then have h: "\<not> is_white_space (hd s)"
      using False by (simp add: dropWhile_eq_self_iff)
    from eq d have "rev (dropWhile is_white_space (rev s)) = s"
      by (simp add: trim_def)
    then have "rev (rev (dropWhile is_white_space (rev s))) = rev s" by simp
    then have "dropWhile is_white_space (rev s) = rev s" by simp
    then have "\<not> is_white_space (hd (rev s))"
      using False by (simp add: dropWhile_eq_self_iff)
    then have "\<not> is_white_space (last s)"
      using False by (simp add: hd_rev)
    with h show "s = [] \<or> (\<not> is_white_space (hd s) \<and> \<not> is_white_space (last s))" by simp
  next
    assume "s = [] \<or> (\<not> is_white_space (hd s) \<and> \<not> is_white_space (last s))"
    with False have h: "\<not> is_white_space (hd s)" and l: "\<not> is_white_space (last s)" by simp_all
    from h False have d: "dropWhile is_white_space s = s"
      by (simp add: dropWhile_eq_self_iff)
    from l False have "dropWhile is_white_space (rev s) = rev s"
      by (simp add: dropWhile_eq_self_iff hd_rev)
    with d show "trim s = s" by (simp add: trim_def)
  qed
qed

section \<open>Facts about the small instance\<close>

lemma text_bytes_bytes_text: "text_bytes (bytes_text b) = b"
proof -
  have "of_nat (of_char (char_of (unat x))) = x" for x :: "8 word"
  proof -
    have "unat x < 2 ^ LENGTH(8)" by (rule unsigned_less)
    then have "unat x < 256" by simp
    then show ?thesis by simp
  qed
  then show ?thesis by (simp add: text_bytes_def bytes_text_def map_idI)
qed

lemma bytes_text_text_bytes: "bytes_text (text_bytes s) = s"
proof -
  have "char_of (unat (of_nat (of_char c) :: 8 word)) = c" for c :: char
  proof -
    have "(of_char c :: nat) < 256" by simp
    then show ?thesis by (simp add: unat_of_nat)
  qed
  then show ?thesis by (simp add: text_bytes_def bytes_text_def map_idI)
qed

lemma demo_primitives_correct: "primitives_correct demo_env"
  by (simp add: primitives_correct_def demo_env_def text_bytes_bytes_text bytes_text_text_bytes map_idI)


lemma demo_json_roundtrip:
  "json_parse demo_env (json_stringify demo_env (demo_vault\<lparr>updatedAt := t\<rparr>)) =
     Some (demo_vault\<lparr>updatedAt := t\<rparr>)"
  by (simp add: demo_env_def show_int_nonempty read_int_show_int)


lemma demo_saveVault_fst:
  "fst (saveVault demo_env ''/tmp/v.json'' ''correct-horse'' 0 demo_world) = Inr ()"
  by (simp add: saveVault_def bind_io_proj try_finally_proj date_now_def set_updatedAt_def
      save_frames write_encrypted_fst acquire_lock_def release_lock_def try_catch_proj
      lockfile_lock_def fs_error_def return_io_def throw_io_def encrypt_value_def
      demo_env_def demo_world_def)

lemma demo_saveVault_always: "fst (saveVault demo_env vaultPath password vault w) = Inr ()"
  by (simp add: saveVault_def bind_io_proj try_finally_proj date_now_def set_updatedAt_def
      save_frames write_encrypted_fst acquire_lock_def release_lock_def try_catch_proj
      lockfile_lock_def lockfile_release_def trackLock_def untrackLock_def
      fs_error_def return_io_def throw_io_def encrypt_value_def demo_env_def
      split: option.splits)

lemma demo_saved_vault:
  "\<exists>sealed. vault_files saved_world ''/tmp/v.json'' = Some (Json sealed) \<and>
            decrypt_value demo_env sealed ''correct-horse'' = Some (demo_vault\<lparr>updatedAt := 5000\<rparr>)"
proof -
  have o: "objects demo_world 0 = demo_vault" and k: "clock demo_world = 5000"
    by (simp_all add: demo_world_def)
  obtain sealed where s: "save_sealed demo_env ''correct-horse'' 0 demo_world = Some sealed"
    and f: "vault_files saved_world = (vault_files demo_world)(''/tmp/v.json'' \<mapsto> Json sealed)"
    using saveVault_success [OF demo_saveVault_fst] unfolding saved_world_def by blast
  have "decrypt_value demo_env sealed ''correct-horse'' = Some (demo_vault\<lparr>updatedAt := 5000\<rparr>)"
    using decrypt_encrypt_value [OF demo_primitives_correct demo_json_roundtrip [of 5000]] s
    by (simp add: save_sealed_def stamped_def o k)
  with f show ?thesis by simp
qed

lemma saved_world_attempts: "attempts_file saved_world = NoFile"
  by (simp add: saved_world_def saveVault_frame demo_world_def)


lemma corrupting_decrypt_value: "decrypt_value corrupting_env = decrypt_value demo_env"
  by (intro ext) (simp add: decrypt_value_def corrupting_env_def split: option.splits)

lemma demo_no_faults:
  "\<not> access_fails demo_env p" "\<not> read_fails demo_env p" "\<not> unlink_fails demo_env p"
  "\<not> chmod_fails demo_env p" "\<not> stat_fails demo_env p" "\<not> copy_fails demo_env p q"
  "parent_writable demo_env p" "copy_transfer demo_env c = c"
  by (simp_all add: demo_env_def)

lemma corrupting_no_faults:
  "\<not> access_fails corrupting_env p" "\<not> read_fails corrupting_env p" "\<not> unlink_fails corrupting_env p"
  "\<not> chmod_fails corrupting_env p" "\<not> stat_fails corrupting_env p" "\<not> copy_fails corrupting_env p q"
  "parent_writable corrupting_env p" "copy_transfer corrupting_env c = NotJson"
  by (simp_all add: corrupting_env_def demo_env_def)

lemma demo_load_outcome:
  "load_outcome demo_env ''/tmp/v.json'' ''correct-horse'' saved_world = Inr (demo_vault\<lparr>updatedAt := 5000\<rparr>)"
  "load_outcome corrupting_env ''/tmp/v.json'' ''correct-horse'' saved_world = Inr (demo_vault\<lparr>updatedAt := 5000\<rparr>)"
  using demo_saved_vault
  by (auto simp: load_outcome_Inr_iff limiter_raises_def saved_world_attempts corrupting_decrypt_value
      demo_no_faults corrupting_no_faults)

section \<open>The claims\<close>

subsection \<open>C1: a sealed vault opens under the same password\<close>

text \<open>
  Claim C1. For every vault record \<open>V\<close> that JSON serialises faithfully and every password
  \<open>P\<close>: when the key derivation succeeds, \<open>encryptJson(V, P)\<close> returns a payload, and
  \<open>decryptJson\<close> of that payload under \<open>P\<close>, in any later state, returns a new object equal
  to \<open>V\<close> (entries and time stamps). The built-ins are taken to meet their contract.
\<close>

theorem encryptJson_decryptJson_roundtrip:
  assumes "primitives_correct env"
      and "json_parse env (json_stringify env (objects w obj)) = Some (objects w obj)"
      and "scrypt env password (drawn env (entropy_pos w) 16) \<noteq> None"
  shows "\<exists>sealed w1. encryptJson env obj password w = (Inr sealed, w1) \<and>
           (\<forall>w2. \<exists>w3. decryptJson env sealed password w2 = (Inr (next_object w2), w3) \<and>
                        objects w3 (next_object w2) = objects w obj)"
proof -
  from assms(3) obtain sealed where
    ev: "encrypt_value env (objects w obj) password
           (drawn env (entropy_pos w) 16) (drawn env (entropy_pos w + 16) 12) = Some sealed"
    by (auto simp: encrypt_value_def split: option.splits)
  then have "fst (encryptJson env obj password w) = Inr sealed"
    by (simp add: encryptJson_fst)
  then have enc: "encryptJson env obj password w = (Inr sealed, snd (encryptJson env obj password w))"
    by (metis prod.collapse)
  from decrypt_encrypt_value [OF assms(1) assms(2) ev]
  have dv: "decrypt_value env sealed password = Some (objects w obj)" .
  have "\<exists>w3. decryptJson env sealed password w2 = (Inr (next_object w2), w3) \<and>
             objects w3 (next_object w2) = objects w obj" for w2
  proof -
    have "fst (decryptJson env sealed password w2) = Inr (next_object w2)"
      by (simp add: decryptJson_fst dv)
    moreover have "objects (snd (decryptJson env sealed password w2)) (next_object w2) = objects w obj"
      by (simp add: decryptJson_objects dv)
    ultimately show ?thesis by (metis prod.collapse)
  qed
  with enc show ?thesis by blast
qed

text \<open>The instance: the example vault under the password \<open>correct-horse\<close>.\<close>

theorem encryptJson_decryptJson_roundtrip_witness:
  "primitives_correct demo_env \<and>
   json_parse demo_env (json_stringify demo_env (objects demo_world 0)) = Some (objects demo_world 0) \<and>
   scrypt demo_env ''correct-horse'' (drawn demo_env (entropy_pos demo_world) 16) \<noteq> None \<and>
   objects demo_world 0 = demo_vault \<and>
   (\<exists>sealed w1. encryptJson demo_env 0 ''correct-horse'' demo_world = (Inr sealed, w1) \<and>
      (\<forall>w2. \<exists>w3. decryptJson demo_env sealed ''correct-horse'' w2 = (Inr (next_object w2), w3) \<and>
                   objects w3 (next_object w2) = demo_vault))"
proof -
  have o: "objects demo_world 0 = demo_vault" by (simp add: demo_world_def)
  have j: "json_parse demo_env (json_stringify demo_env (objects demo_world 0)) = Some (objects demo_world 0)"
    using demo_json_roundtrip [of 1000] by (simp add: o demo_vault_def)
  have s: "scrypt demo_env ''correct-horse'' (drawn demo_env (entropy_pos demo_world) 16) \<noteq> None"
    by (simp add: demo_env_def)
  from encryptJson_decryptJson_roundtrip [OF demo_primitives_correct j s]
  show ?thesis using j s by (simp add: o demo_primitives_correct)
qed

subsection \<open>C2: decryption fails closed\<close>



subsection \<open>C3: the lockout is not enforced\<close>

text \<open>
  Claim C3 says that \<open>waitIfNeeded\<close> fails with a lockout error while \<open>lockedUntil\<close> lies
  in the future, so that no decryption is attempted. The code throws that error and
  catches it itself: the \<open>catch\<close> block re-throws only messages that contain
  \<open>locked out\<close>, and the message reads \<open>Locked out\<close>. So for every persisted state with
  \<open>lockedUntil\<close> in the future \<open>waitIfNeeded\<close> returns \<open>false\<close> without an error and without
  changing anything, and \<open>loadVault\<close> goes on to decrypt: with the right password it
  returns the vault.
\<close>

theorem waitIfNeeded_lockout_swallowed:
  assumes "attempts_file w = Stored a" and "lockedUntil a \<noteq> 0" and "clock w < lockedUntil a"
  shows "waitIfNeeded passwordRateLimiter w = (Inr False, w) \<and>
         (vault_files w vaultPath = Some (Json sealed) \<and> \<not> access_fails env vaultPath \<and>
          \<not> read_fails env vaultPath \<and> decrypt_value env sealed password = Some v \<longrightarrow>
            fst (loadVault env vaultPath password w) = Inr (next_object w) \<and>
            objects (snd (loadVault env vaultPath password w)) (next_object w) = v)"
proof -
  have g: "waitIfNeeded passwordRateLimiter w = (Inr False, w)"
    using assms by (rule waitIfNeeded_locked)
  moreover have "fst (loadVault env vaultPath password w) = Inr (next_object w) \<and>
      objects (snd (loadVault env vaultPath password w)) (next_object w) = v"
    if "vault_files w vaultPath = Some (Json sealed)" "\<not> access_fails env vaultPath"
       "\<not> read_fails env vaultPath" "decrypt_value env sealed password = Some v"
  proof -
    have "load_outcome env vaultPath password w = Inr v"
      using that g by (simp add: load_outcome_def)
    then show ?thesis by (simp add: loadVault_fst loadVault_objects)
  qed
  ultimately show ?thesis by blast
qed

text \<open>The instance: ten failures recorded, the lockout lasting another 299.5 seconds.\<close>

theorem waitIfNeeded_lockout_swallowed_witness:
  "attempts_file locked_saved_world =
     Stored \<lparr>lastAttempt = 1000000, failedAttempts = 10, lockedUntil = 1300000\<rparr> \<and>
   clock locked_saved_world < 1300000 \<and>
   waitIfNeeded passwordRateLimiter locked_saved_world = (Inr False, locked_saved_world) \<and>
   fst (loadVault demo_env ''/tmp/v.json'' ''correct-horse'' locked_saved_world) =
     Inr (next_object locked_saved_world) \<and>
   objects (snd (loadVault demo_env ''/tmp/v.json'' ''correct-horse'' locked_saved_world))
     (next_object locked_saved_world) = demo_vault\<lparr>updatedAt := 5000\<rparr>"
proof -
  let ?a = "\<lparr>lastAttempt = 1000000, failedAttempts = 10, lockedUntil = 1300000\<rparr>"
  have a: "attempts_file locked_saved_world = Stored ?a"
    and c: "clock locked_saved_world < lockedUntil ?a"
    by (simp_all add: locked_saved_world_def)
  have b: "lockedUntil ?a \<noteq> 0" by simp
  obtain sealed where f: "vault_files saved_world ''/tmp/v.json'' = Some (Json sealed)"
    and d: "decrypt_value demo_env sealed ''correct-horse'' = Some (demo_vault\<lparr>updatedAt := 5000\<rparr>)"
    using demo_saved_vault by blast
  have f': "vault_files locked_saved_world ''/tmp/v.json'' = Some (Json sealed)"
    using f by (simp add: locked_saved_world_def)
  have e: "\<not> access_fails demo_env ''/tmp/v.json''" "\<not> read_fails demo_env ''/tmp/v.json''"
    by (simp_all add: demo_env_def)
  from waitIfNeeded_lockout_swallowed [OF a b c, of "''/tmp/v.json''" sealed demo_env
      "''correct-horse''" "demo_vault\<lparr>updatedAt := 5000\<rparr>"] f' e d
  show ?thesis using a c by simp
qed

subsection \<open>C4: moveVault deletes the source only after the copy is verified\<close>



subsection \<open>C5: recordFailure\<close>

text \<open>
  Claim C5, as the code has it. \<open>recordFailure\<close> never throws. When the attempts file can
  be read (or is absent) and written, it stores the current time as \<open>lastAttempt\<close> and, as
  \<open>failedAttempts\<close>, one more than the count it read, after setting that count to zero when
  a last attempt is recorded and more than twice the minimum delay (2000 ms) has passed
  since; when the stored count is at least 10 it stores \<open>lockedUntil\<close> as the current time
  plus 300000 ms, and otherwise leaves \<open>lockedUntil\<close> as it was. When the file cannot be read
  or written, the file is left as it was.
\<close>

theorem recordFailure_effect:
  "fst (recordFailure passwordRateLimiter env w) = Inr () \<and>
   (fst (getAttempts w) = Inr a \<and> \<not> attempts_write_fails env \<longrightarrow>
      (\<exists>a'. attempts_file (snd (recordFailure passwordRateLimiter env w)) = Stored a' \<and>
            lastAttempt a' = clock w \<and>
            failedAttempts a' =
              (if lastAttempt a \<noteq> 0 \<and> clock w - lastAttempt a > 2000 then 0 else failedAttempts a) + 1 \<and>
            (failedAttempts a' \<ge> 10 \<longrightarrow> lockedUntil a' = clock w + 300000) \<and>
            (failedAttempts a' < 10 \<longrightarrow> lockedUntil a' = lockedUntil a))) \<and>
   ((\<forall>b. fst (getAttempts w) \<noteq> Inr b) \<or> attempts_write_fails env \<longrightarrow>
      attempts_file (snd (recordFailure passwordRateLimiter env w)) = attempts_file w)"
proof (intro conjI impI)
  show "fst (recordFailure passwordRateLimiter env w) = Inr ()"
    by (rule recordFailure_fst)
next
  assume "fst (getAttempts w) = Inr a \<and> \<not> attempts_write_fails env"
  then show "\<exists>a'. attempts_file (snd (recordFailure passwordRateLimiter env w)) = Stored a' \<and>
            lastAttempt a' = clock w \<and>
            failedAttempts a' =
              (if lastAttempt a \<noteq> 0 \<and> clock w - lastAttempt a > 2000 then 0 else failedAttempts a) + 1 \<and>
            (failedAttempts a' \<ge> 10 \<longrightarrow> lockedUntil a' = clock w + 300000) \<and>
            (failedAttempts a' < 10 \<longrightarrow> lockedUntil a' = lockedUntil a)"
    by (cases "attempts_file w") (auto simp: limiter_defs)
next
  assume "(\<forall>b. fst (getAttempts w) \<noteq> Inr b) \<or> attempts_write_fails env"
  then show "attempts_file (snd (recordFailure passwordRateLimiter env w)) = attempts_file w"
    by (cases "attempts_file w") (auto simp: limiter_defs)
qed

text \<open>The instance: the tenth failure, half a second after the ninth.\<close>

theorem recordFailure_effect_witness:
  "fst (getAttempts ninth_world) = Inr \<lparr>lastAttempt = 1000, failedAttempts = 9, lockedUntil = 0\<rparr> \<and>
   \<not> attempts_write_fails demo_env \<and>
   fst (recordFailure passwordRateLimiter demo_env ninth_world) = Inr () \<and>
   attempts_file (snd (recordFailure passwordRateLimiter demo_env ninth_world)) =
     Stored \<lparr>lastAttempt = 1500, failedAttempts = 10, lockedUntil = 301500\<rparr>"
  using recordFailure_effect [of demo_env ninth_world
          "\<lparr>lastAttempt = 1000, failedAttempts = 9, lockedUntil = 0\<rparr>"]
  by (auto simp: getAttempts_def ninth_world_def demo_world_def demo_env_def)

text \<open>
  The claim as stated, that every call increments the persisted count, fails: with 5
  failures recorded and 9 seconds since the last one, the stored count becomes 1.
\<close>

theorem recordFailure_increment_counterexample:
  "persisted_failedAttempts decay_world = 5 \<and>
   persisted_failedAttempts (snd (recordFailure passwordRateLimiter demo_env decay_world)) = 1 \<and>
   persisted_failedAttempts (snd (recordFailure passwordRateLimiter demo_env decay_world)) \<noteq>
     persisted_failedAttempts decay_world + 1"
  by (simp add: persisted_failedAttempts_def decay_world_def demo_world_def demo_env_def limiter_defs)

subsection \<open>C6: the failure count decays\<close>

text \<open>
  Claim C6. For a persisted state with a recorded last attempt: if more than twice the
  minimum delay has passed since, the next \<open>recordFailure\<close> stores the count 1; if not, it
  stores the count plus one. What it stores depends on the attempts file and the clock
  only, not on anything a process keeps in memory, so a restart does not reset the count.
  (The code tests \<open>attempts.lastAttempt\<close> for truth: the value 0 stands for no attempt
  recorded.)
\<close>

theorem recordFailure_decay:
  assumes "attempts_file w = Stored a" and "lastAttempt a \<noteq> 0" and "\<not> attempts_write_fails env"
  shows "(clock w - lastAttempt a > 2 * minDelayMs passwordRateLimiter \<longrightarrow>
           (\<exists>a'. attempts_file (snd (recordFailure passwordRateLimiter env w)) = Stored a' \<and>
                 failedAttempts a' = 1)) \<and>
         (clock w - lastAttempt a \<le> 2 * minDelayMs passwordRateLimiter \<longrightarrow>
           (\<exists>a'. attempts_file (snd (recordFailure passwordRateLimiter env w)) = Stored a' \<and>
                 failedAttempts a' = failedAttempts a + 1)) \<and>
         (\<forall>w'. attempts_file w' = attempts_file w \<and> clock w' = clock w \<longrightarrow>
            attempts_file (snd (recordFailure passwordRateLimiter env w')) =
            attempts_file (snd (recordFailure passwordRateLimiter env w)))"
  using assms by (auto simp: limiter_defs)

text \<open>The instance: 5 failures, the last one 9 seconds ago.\<close>

theorem recordFailure_decay_witness:
  "attempts_file decay_world = Stored \<lparr>lastAttempt = 1000, failedAttempts = 5, lockedUntil = 0\<rparr> \<and>
   \<not> attempts_write_fails demo_env \<and>
   clock decay_world - 1000 > 2 * minDelayMs passwordRateLimiter \<and>
   attempts_file (snd (recordFailure passwordRateLimiter demo_env decay_world)) =
     Stored \<lparr>lastAttempt = 10000, failedAttempts = 1, lockedUntil = 0\<rparr>"
proof -
  let ?a = "\<lparr>lastAttempt = 1000, failedAttempts = 5, lockedUntil = 0\<rparr>"
  have a: "attempts_file decay_world = Stored ?a"
    by (simp add: decay_world_def demo_world_def)
  have b: "lastAttempt ?a \<noteq> 0" by simp
  have c: "\<not> attempts_write_fails demo_env" by (simp add: demo_env_def)
  have d: "clock decay_world - lastAttempt ?a > 2 * minDelayMs passwordRateLimiter"
    by (simp add: decay_world_def demo_world_def passwordRateLimiter_def)
  from recordFailure_decay [OF a b c] d
  obtain a' where s: "attempts_file (snd (recordFailure passwordRateLimiter demo_env decay_world)) = Stored a'"
    and n: "failedAttempts a' = 1"
    by blast
  have "attempts_file (snd (recordFailure passwordRateLimiter demo_env decay_world)) =
     Stored \<lparr>lastAttempt = 10000, failedAttempts = 1, lockedUntil = 0\<rparr>"
    using s n by (simp add: decay_world_def demo_world_def demo_env_def limiter_defs)
  with a c d show ?thesis by simp
qed

subsection \<open>C7: changeMasterPassword preserves the entries\<close>

text \<open>
  Claim C7. For a vault file that decrypts under the old password to \<open>v\<close>: if
  \<open>changeMasterPassword\<close> succeeds, loading the vault with the new password succeeds and
  returns the entries (and the creation time) of \<open>v\<close>. The object that \<open>loadVault\<close> returned
  is not the one that \<open>saveVault\<close> stamps: whatever the outcome, it still holds \<open>v\<close>
  afterwards. The built-ins are taken to meet their contract, and \<open>v\<close> to serialise
  faithfully whatever its \<open>updatedAt\<close>.
\<close>

theorem changeMasterPassword_preserves_entries:
  assumes "primitives_correct env"
      and "\<forall>t. json_parse env (json_stringify env (v\<lparr>updatedAt := t\<rparr>)) = Some (v\<lparr>updatedAt := t\<rparr>)"
      and "vault_files w vaultPath = Some (Json sealed)"
      and "decrypt_value env sealed oldPassword = Some v"
  shows "(fst (changeMasterPassword env vaultPath oldPassword newPassword w) = Inr () \<longrightarrow>
           (\<exists>a w'. loadVault env vaultPath newPassword
                      (snd (changeMasterPassword env vaultPath oldPassword newPassword w)) = (Inr a, w') \<and>
                   entries (objects w' a) = entries v \<and> createdAt (objects w' a) = createdAt v)) \<and>
         (fst (loadVault env vaultPath oldPassword w) = Inr b \<longrightarrow>
            objects (snd (changeMasterPassword env vaultPath oldPassword newPassword w)) b = v \<and>
            objects (snd (loadVault env vaultPath oldPassword w)) b = v)"
proof (intro conjI impI)
  let ?wf = "snd (changeMasterPassword env vaultPath oldPassword newPassword w)"
  assume ok: "fst (changeMasterPassword env vaultPath oldPassword newPassword w) = Inr ()"
  from changeMasterPassword_success [OF ok] obtain v0 w2 sealed' where
    lo: "load_outcome env vaultPath oldPassword w = Inr v0"
    and o2: "objects w2 (Suc (next_object w)) = the (json_parse env (json_stringify env v0))"
    and ss: "save_sealed env newPassword (Suc (next_object w)) w2 = Some sealed'"
    and ff: "vault_files ?wf vaultPath = Some (Json sealed')"
    and af: "attempts_file ?wf = attempts_file (snd (loadVault env vaultPath oldPassword w))"
    by blast
  from lo assms(3,4) have v0: "v0 = v" and nf: "\<not> access_fails env vaultPath" "\<not> read_fails env vaultPath"
    by (auto simp: load_outcome_Inr_iff)
  have jv: "json_parse env (json_stringify env v) = Some v"
    using assms(2) [rule_format, of "updatedAt v"] by simp
  let ?v' = "v\<lparr>updatedAt := clock w2\<rparr>"
  have st: "stamped w2 (Suc (next_object w)) = ?v'"
    using o2 v0 jv by (simp add: stamped_def)
  have dv: "decrypt_value env sealed' newPassword = Some ?v'"
    using decrypt_encrypt_value [OF assms(1) assms(2) [rule_format, of "clock w2"]] ss
    by (simp add: save_sealed_def st)
  have "\<not> limiter_raises (snd (loadVault env vaultPath oldPassword w))"
    using loadVault_not_raises_after [OF lo] .
  then have nr: "\<not> limiter_raises ?wf"
    by (simp add: limiter_raises_def af)
  have "load_outcome env vaultPath newPassword ?wf = Inr ?v'"
    using nr nf ff dv by (simp add: load_outcome_Inr_iff)
  then have "fst (loadVault env vaultPath newPassword ?wf) = Inr (next_object ?wf)"
    and "objects (snd (loadVault env vaultPath newPassword ?wf)) (next_object ?wf) = ?v'"
    by (simp_all add: loadVault_fst loadVault_objects)
  then show "\<exists>a w'. loadVault env vaultPath newPassword ?wf = (Inr a, w') \<and>
                   entries (objects w' a) = entries v \<and> createdAt (objects w' a) = createdAt v"
    by (metis prod.collapse vault.select_convs(1) vault.select_convs(2) vault.surjective
        vault.update_convs(3))
next
  assume l: "fst (loadVault env vaultPath oldPassword w) = Inr b"
  then obtain v0 where lo: "load_outcome env vaultPath oldPassword w = Inr v0" and b: "b = next_object w"
    by (cases "load_outcome env vaultPath oldPassword w") (simp_all add: loadVault_fst)
  from lo assms(3,4) have v0: "v0 = v"
    by (auto simp: load_outcome_Inr_iff)
  show "objects (snd (changeMasterPassword env vaultPath oldPassword newPassword w)) b = v"
    using changeMasterPassword_loaded_object [OF lo] by (simp add: b v0)
  show "objects (snd (loadVault env vaultPath oldPassword w)) b = v"
    using lo by (simp add: loadVault_objects b v0)
qed

text \<open>The instance: the example vault re-keyed from \<open>correct-horse\<close> to \<open>new-pass\<close>.\<close>

theorem changeMasterPassword_preserves_entries_witness:
  "primitives_correct demo_env \<and>
   (\<forall>t. json_parse demo_env (json_stringify demo_env (demo_vault\<lparr>updatedAt := t\<rparr>)) =
          Some (demo_vault\<lparr>updatedAt := t\<rparr>)) \<and>
   (\<exists>sealed. vault_files saved_world ''/tmp/v.json'' = Some (Json sealed) \<and>
             decrypt_value demo_env sealed ''correct-horse'' = Some (demo_vault\<lparr>updatedAt := 5000\<rparr>)) \<and>
   fst (changeMasterPassword demo_env ''/tmp/v.json'' ''correct-horse'' ''new-pass'' saved_world) = Inr () \<and>
   (\<exists>a w'. loadVault demo_env ''/tmp/v.json'' ''new-pass''
              (snd (changeMasterPassword demo_env ''/tmp/v.json'' ''correct-horse'' ''new-pass'' saved_world)) =
              (Inr a, w') \<and>
            entries (objects w' a) = entries demo_vault \<and> createdAt (objects w' a) = 1000) \<and>
   objects (snd (changeMasterPassword demo_env ''/tmp/v.json'' ''correct-horse'' ''new-pass'' saved_world))
     (next_object saved_world) = demo_vault\<lparr>updatedAt := 5000\<rparr>"
proof -
  let ?v = "demo_vault\<lparr>updatedAt := 5000\<rparr>"
  obtain sealed where f: "vault_files saved_world ''/tmp/v.json'' = Some (Json sealed)"
    and d: "decrypt_value demo_env sealed ''correct-horse'' = Some ?v"
    using demo_saved_vault by blast
  have j: "\<forall>t. json_parse demo_env (json_stringify demo_env (?v\<lparr>updatedAt := t\<rparr>)) = Some (?v\<lparr>updatedAt := t\<rparr>)"
    using demo_json_roundtrip by simp
  have ok: "fst (changeMasterPassword demo_env ''/tmp/v.json'' ''correct-horse'' ''new-pass'' saved_world) = Inr ()"
    using changeMasterPassword_fst [OF demo_load_outcome(1), of "''new-pass''"]
      demo_json_roundtrip [of 5000] demo_saveVault_always by simp
  have l: "fst (loadVault demo_env ''/tmp/v.json'' ''correct-horse'' saved_world) = Inr (next_object saved_world)"
    by (simp add: loadVault_fst demo_load_outcome)
  from changeMasterPassword_preserves_entries [OF demo_primitives_correct j f d,
      of "''new-pass''" "next_object saved_world"] ok l
  have "\<exists>a w'. loadVault demo_env ''/tmp/v.json'' ''new-pass''
              (snd (changeMasterPassword demo_env ''/tmp/v.json'' ''correct-horse'' ''new-pass'' saved_world)) =
              (Inr a, w') \<and>
            entries (objects w' a) = entries ?v \<and> createdAt (objects w' a) = createdAt ?v"
    and "objects (snd (changeMasterPassword demo_env ''/tmp/v.json'' ''correct-horse'' ''new-pass'' saved_world))
     (next_object saved_world) = ?v"
    by simp_all
  then show ?thesis
    using demo_primitives_correct f d ok demo_json_roundtrip by (simp add: demo_vault_def)
qed

subsection \<open>C8: entry keys\<close>

text \<open>
  Claim C8, as the code has it: \<open>validateEntryKey\<close> accepts a key if and only if the key
  is non-empty, has at most 255 UTF-16 code units, contains none of the three characters
  NUL, LF and CR, and neither starts nor ends with a whitespace character.
\<close>

theorem validateEntryKey_accepts_iff:
  "validateEntryKey key = Valid \<longleftrightarrow>
     key \<noteq> [] \<and> length key \<le> 255 \<and> 0x00 \<notin> set key \<and> 0x0A \<notin> set key \<and> 0x0D \<notin> set key \<and>
     \<not> is_white_space (hd key) \<and> \<not> is_white_space (last key)"
proof (cases "trim key = key")
  case True
  then show ?thesis
    using trim_fixed_iff [of key]
    by (auto simp: validateEntryKey_def invalidChars_def)
next
  case False
  then show ?thesis
    using trim_fixed_iff [of key]
    by (auto simp: validateEntryKey_def invalidChars_def)
qed

text \<open>
  The examples of the specification: \<open>"github"\<close> and \<open>"email-work"\<close> are accepted; the
  empty key, a key of 256 characters, \<open>" leading"\<close> and keys holding NUL or a newline are
  rejected.
\<close>

theorem validateEntryKey_accepts_iff_witness:
  "validateEntryKey (js_str ''github'') = Valid \<and>
   validateEntryKey (js_str ''email-work'') = Valid \<and>
   validateEntryKey [] \<noteq> Valid \<and>
   validateEntryKey (replicate 256 0x61) \<noteq> Valid \<and>
   validateEntryKey (js_str '' leading'') \<noteq> Valid \<and>
   validateEntryKey [0x61, 0x00, 0x62] \<noteq> Valid \<and>
   validateEntryKey [0x61, 0x0A, 0x62] \<noteq> Valid"
  using validateEntryKey_accepts_iff [of "js_str ''github''"]
        validateEntryKey_accepts_iff [of "js_str ''email-work''"]
        validateEntryKey_accepts_iff [of "[]"]
        validateEntryKey_accepts_iff [of "replicate 256 0x61"]
        validateEntryKey_accepts_iff [of "js_str '' leading''"]
        validateEntryKey_accepts_iff [of "[0x61, 0x00, 0x62]"]
        validateEntryKey_accepts_iff [of "[0x61, 0x0A, 0x62]"]
  by (simp add: js_str_def is_white_space_def)

text \<open>
  The rule in the words of the specification does not describe the code: the key
  \<open>a\<close>, BEL, \<open>b\<close> holds a control character and is accepted, and a key of 200 letters
  \<open>U+00E9\<close> takes 400 bytes and is accepted.
\<close>

theorem validateEntryKey_spec_counterexample:
  "validateEntryKey [0x61, 0x07, 0x62] = Valid \<and> \<not> entry_key_spec [0x61, 0x07, 0x62] \<and>
   validateEntryKey (replicate 200 0xE9) = Valid \<and> \<not> entry_key_spec (replicate 200 0xE9)"
  by (simp add: validateEntryKey_def trim_def is_white_space_def invalidChars_def
      entry_key_spec_def is_control_char_def utf8_length_def utf8_bytes_def sum_list_replicate)

subsection \<open>C9: the audit log is capped\<close>



subsection \<open>C10: saveVault stamps the caller's object\<close>

text \<open>
  Claim C10. Whatever the outcome of \<open>saveVault\<close>, afterwards the caller's object is the
  object it was with \<open>updatedAt\<close> replaced by the current time, and every other object is
  unchanged. The stamp precedes the encryption: when \<open>saveVault\<close> succeeds (and the
  built-ins meet their contract) the file decrypts to the stamped vault.
\<close>

theorem saveVault_stamps_argument:
  "objects (snd (saveVault env vaultPath password vault w)) =
     (objects w)(vault := (objects w vault)\<lparr>updatedAt := clock w\<rparr>) \<and>
   (primitives_correct env \<and>
    json_parse env (json_stringify env ((objects w vault)\<lparr>updatedAt := clock w\<rparr>)) =
      Some ((objects w vault)\<lparr>updatedAt := clock w\<rparr>) \<and>
    fst (saveVault env vaultPath password vault w) = Inr () \<longrightarrow>
      (\<exists>sealed. vault_files (snd (saveVault env vaultPath password vault w)) vaultPath = Some (Json sealed) \<and>
         decrypt_value env sealed password = Some ((objects w vault)\<lparr>updatedAt := clock w\<rparr>)))"
proof (intro conjI impI)
  show "objects (snd (saveVault env vaultPath password vault w)) =
     (objects w)(vault := (objects w vault)\<lparr>updatedAt := clock w\<rparr>)"
    by (rule saveVault_objects)
next
  assume a: "primitives_correct env \<and>
    json_parse env (json_stringify env ((objects w vault)\<lparr>updatedAt := clock w\<rparr>)) =
      Some ((objects w vault)\<lparr>updatedAt := clock w\<rparr>) \<and>
    fst (saveVault env vaultPath password vault w) = Inr ()"
  then obtain sealed where s: "save_sealed env password vault w = Some sealed"
    and f: "vault_files (snd (saveVault env vaultPath password vault w)) =
             (vault_files w)(vaultPath \<mapsto> Json sealed)"
    using saveVault_success [of env vaultPath password vault w] by blast
  from a s have "decrypt_value env sealed password = Some ((objects w vault)\<lparr>updatedAt := clock w\<rparr>)"
    using decrypt_encrypt_value [of env "(objects w vault)\<lparr>updatedAt := clock w\<rparr>" password
        "drawn env (entropy_pos w) 16" "drawn env (entropy_pos w + 16) 12" sealed]
    by (simp add: save_sealed_def stamped_def)
  with f show "\<exists>sealed. vault_files (snd (saveVault env vaultPath password vault w)) vaultPath = Some (Json sealed) \<and>
         decrypt_value env sealed password = Some ((objects w vault)\<lparr>updatedAt := clock w\<rparr>)"
    by simp
qed

text \<open>The instance: the first save of the example vault.\<close>

theorem saveVault_stamps_argument_witness:
  "primitives_correct demo_env \<and>
   json_parse demo_env (json_stringify demo_env (demo_vault\<lparr>updatedAt := 5000\<rparr>)) =
     Some (demo_vault\<lparr>updatedAt := 5000\<rparr>) \<and>
   fst (saveVault demo_env ''/tmp/v.json'' ''correct-horse'' 0 demo_world) = Inr () \<and>
   updatedAt (objects demo_world 0) = 1000 \<and> clock demo_world = 5000 \<and>
   objects (snd (saveVault demo_env ''/tmp/v.json'' ''correct-horse'' 0 demo_world)) 0 =
     demo_vault\<lparr>updatedAt := 5000\<rparr> \<and>
   (\<exists>sealed. vault_files (snd (saveVault demo_env ''/tmp/v.json'' ''correct-horse'' 0 demo_world))
               ''/tmp/v.json'' = Some (Json sealed) \<and>
            decrypt_value demo_env sealed ''correct-horse'' = Some (demo_vault\<lparr>updatedAt := 5000\<rparr>))"
proof -
  have o: "objects demo_world 0 = demo_vault" and k: "clock demo_world = 5000"
    by (simp_all add: demo_world_def)
  have j: "json_parse demo_env (json_stringify demo_env ((objects demo_world 0)\<lparr>updatedAt := clock demo_world\<rparr>)) =
      Some ((objects demo_world 0)\<lparr>updatedAt := clock demo_world\<rparr>)"
    by (simp add: o demo_json_roundtrip)
  from saveVault_stamps_argument [of demo_env "''/tmp/v.json''" "''correct-horse''" 0 demo_world]
    demo_primitives_correct j demo_saveVault_fst
  show ?thesis using demo_json_roundtrip [of 5000] by (simp add: o k demo_vault_def)
qed

end
